theory Spec2Isabelle
  imports
    Complex_Main
    "HOL-Library.Product_Lexorder"
    "HOL-Library.List_Lexorder"
    "HOL-Library.Char_ord"
begin

section \<open>The tables the lot selection reads and writes\<close>

text \<open>
  The program keeps its state in MySQL tables and reaches them through \<open>run_query\<close>.
  A table is a list of rows; the fields of a row carry the alias the queries of
  \<open>manufacturer_actions.py\<close> give its table (\<open>rpi\<close>, \<open>i\<close>, \<open>ib\<close>, \<open>s\<close>, \<open>sc\<close>, \<open>rp\<close>, \<open>pt\<close>).
  Quantities are DECIMAL columns, kept as exact rationals; the code reads them through
  \<open>float\<close>, which is modelled below.
  Dates are day numbers, and \<open>CURDATE()\<close> is the parameter \<open>today\<close>.
  The typed recipe plan key is compared with the key column as text.
\<close>

record ingredient =
  i_ingredient_id :: int
  i_name :: string

record supplier =
  s_supplier_id :: int
  s_name :: string

record recipe_plan_item =
  rpi_recipe_plan_id :: string
  rpi_ingredient_id :: int
  rpi_qty_oz_per_unit :: rat

record ingredient_batch =
  ib_ingredient_batch_id :: int
  ib_ingredient_id :: int
  ib_supplier_id :: int
  ib_lot_number :: string
  ib_on_hand_oz :: rat
  ib_expiration_date :: int

record staging_consumption =
  sc_session_token :: string
  sc_ingredient_batch_id :: int
  sc_qty_oz :: rat

record product_type =
  pt_product_type_id :: int
  pt_manufacturer_id :: string
  pt_name :: string

record recipe_plan =
  rp_recipe_plan_id :: string
  rp_product_type_id :: int

record database =
  t_ingredient :: "ingredient list"
  t_supplier :: "supplier list"
  t_recipe_plan_item :: "recipe_plan_item list"
  t_ingredient_batch :: "ingredient_batch list"
  t_staging_consumption :: "staging_consumption list"
  t_product_type :: "product_type list"
  t_recipe_plan :: "recipe_plan list"

section \<open>The queries of \<open>auto_select_lots_fefo\<close>\<close>

text \<open>The rows of the first query: the keys of the dictionaries it returns.\<close>

record recipe_item =
  ingredient_id :: int
  ingredient_name :: string
  qty_oz_per_unit :: rat
  total_qty_needed :: rat

text \<open>
  \<open>SELECT ... FROM recipe_plan_item rpi JOIN ingredient i ON ... WHERE rpi.recipe_plan_id = %s
  ORDER BY i.name\<close>. The order of names is the order of their characters; rows with the
  same name keep the order of the table.
\<close>

definition recipe_items :: "database \<Rightarrow> string \<Rightarrow> int \<Rightarrow> recipe_item list" where
  "recipe_items db recipe_plan_id produced_units =
     sort_key ingredient_name
       [\<lparr>ingredient_id = rpi_ingredient_id rpi,
         ingredient_name = i_name i,
         qty_oz_per_unit = rpi_qty_oz_per_unit rpi,
         total_qty_needed = rpi_qty_oz_per_unit rpi * of_int produced_units\<rparr>.
        rpi \<leftarrow> t_recipe_plan_item db, i \<leftarrow> t_ingredient db,
        rpi_ingredient_id rpi = i_ingredient_id i,
        rpi_recipe_plan_id rpi = recipe_plan_id]"

text \<open>The rows of the second query.\<close>

record available_batch =
  ingredient_batch_id :: int
  lot_number :: string
  on_hand_oz :: rat
  expiration_date :: int
  supplier_name :: string
  days_until_expiry :: int

text \<open>
  \<open>SELECT ... FROM ingredient_batch ib JOIN supplier s ON ... WHERE ib.ingredient_id = %s
  AND ib.on_hand_oz > 0 AND ib.expiration_date >= CURDATE()
  ORDER BY ib.expiration_date ASC, ib.ingredient_batch_id ASC\<close>.
\<close>

definition fefo_key :: "available_batch \<Rightarrow> int \<times> int" where
  "fefo_key b = (expiration_date b, ingredient_batch_id b)"

definition available_batches :: "database \<Rightarrow> int \<Rightarrow> int \<Rightarrow> available_batch list" where
  "available_batches db today ing =
     sort_key fefo_key
       [\<lparr>ingredient_batch_id = ib_ingredient_batch_id ib,
         lot_number = ib_lot_number ib,
         on_hand_oz = ib_on_hand_oz ib,
         expiration_date = ib_expiration_date ib,
         supplier_name = s_name s,
         days_until_expiry = ib_expiration_date ib - today\<rparr>.
        ib \<leftarrow> t_ingredient_batch db, s \<leftarrow> t_supplier db,
        ib_supplier_id ib = s_supplier_id s,
        ib_ingredient_id ib = ing,
        0 < ib_on_hand_oz ib,
        today \<le> ib_expiration_date ib]"

text \<open>
  The third query, run when the second returns nothing:
  \<open>SELECT COUNT(*), SUM(CASE WHEN on_hand_oz > 0 ...), SUM(CASE WHEN expiration_date < CURDATE() ...)
  FROM ingredient_batch WHERE ingredient_id = %s\<close>.
\<close>

definition all_batches :: "database \<Rightarrow> int \<Rightarrow> int \<Rightarrow> nat \<times> nat \<times> nat" where
  "all_batches db today ing =
     (let rows = filter (\<lambda>ib. ib_ingredient_id ib = ing) (t_ingredient_batch db)
      in (length rows,
          length (filter (\<lambda>ib. 0 < ib_on_hand_oz ib) rows),
          length (filter (\<lambda>ib. ib_expiration_date ib < today) rows)))"

section \<open>Python's \<open>float\<close>\<close>

text \<open>
  The connector returns a DECIMAL column as a \<open>decimal.Decimal\<close>; \<open>float\<close> turns it
  into a binary64 number, and the arithmetic of the loop is binary64 arithmetic: the
  result of an operation is the exact result rounded to the nearest binary64 number,
  a tie going to the even mantissa. A binary64 number is kept as the rational it
  stands for, and \<open>float64 x\<close> is the binary64 number nearest to \<open>x\<close>:
  \<open>float(d)\<close> is \<open>float64 d\<close>, and \<open>a - b\<close> on floats is \<open>float64 (a - b)\<close>.
  Comparisons and \<open>min\<close> are exact. Overflow and subnormal numbers are left out: the
  exponent is not bounded here, which is how binary64 behaves on quantities of a
  DECIMAL column, their sums and their differences.

  \<open>bit_length\<close> is the number of binary digits of a natural number; for \<open>a > 0\<close>,
  \<open>ulp_exponent a\<close> is an exponent \<open>e\<close> with \<open>2^52 \<le> a / 2^e \<le> 2^53\<close>, so that the
  binary64 numbers around \<open>a\<close> are the multiples of \<open>2^e\<close>.
\<close>

fun bit_length :: "nat \<Rightarrow> nat" where
  "bit_length n = (if n = 0 then 0 else Suc (bit_length (n div 2)))"

declare bit_length.simps [simp del]

definition pow2 :: "int \<Rightarrow> rat" where
  "pow2 e = (if 0 \<le> e then 2 ^ nat e else 1 / 2 ^ nat (- e))"

definition ulp_exponent :: "rat \<Rightarrow> int" where
  "ulp_exponent a =
     (if 1 \<le> a then int (bit_length (nat \<lfloor>a\<rfloor>)) - 53
      else - int (bit_length (nat \<lfloor>1 / a\<rfloor>)) - 52)"

definition round_half_even :: "rat \<Rightarrow> int" where
  "round_half_even s =
     (let m = \<lfloor>s\<rfloor>; r = s - of_int m
      in if 1 / 2 < r \<or> (r = 1 / 2 \<and> odd m) then m + 1 else m)"

definition float_pos :: "rat \<Rightarrow> rat" where
  "float_pos a = of_int (round_half_even (a / pow2 (ulp_exponent a))) * pow2 (ulp_exponent a)"

definition float64 :: "rat \<Rightarrow> rat" where
  "float64 x = (if x = 0 then 0 else if 0 < x then float_pos x else - float_pos (- x))"

text \<open>
  \<open>sum\<close> over floats starts from the integer \<open>0\<close>, so the first float is taken as it
  is, and adds the others from left to right, rounding after each addition. (From
  version 3.12 on CPython also carries the rounding errors along and adds them at the
  end; for two floats the result is the same.)
\<close>

definition float_sum :: "rat list \<Rightarrow> rat" where
  "float_sum xs =
     (case xs of [] \<Rightarrow> 0 | x # rest \<Rightarrow> foldl (\<lambda>acc y. float64 (acc + y)) x rest)"

section \<open>\<open>auto_select_lots_fefo\<close>\<close>

text \<open>
  The function returns \<open>(success, message, lots_selected)\<close>. A failure is the value it
  returns with \<open>success = False\<close>; each constructor stands for one message and carries
  the values the message is built from.
\<close>

datatype fefo_error =
    NoIngredientsFound
  | NoAvailableLots string nat nat nat
  | NoBatchesExist string
  | InsufficientTotal string rat nat rat rat
  | InsufficientQuantity string rat

text \<open>
  The inner loop over \<open>available_batches\<close>: it stops at the first lot reached with
  \<open>qty_remaining <= 0\<close>, and otherwise inserts one staging row for
  \<open>min(qty_remaining, on_hand)\<close>, where \<open>on_hand = float(batch['on_hand_oz'])\<close>, and
  subtracts what it took. The state is the remaining quantity, the staging table and
  the count of lots selected. The quantity of a staging row is the float handed to the
  \<open>INSERT\<close>; how the column of \<open>staging_consumption\<close> stores it is not part of the
  sources.
\<close>

fun select_lots ::
  "string \<Rightarrow> available_batch list \<Rightarrow> rat \<Rightarrow> staging_consumption list \<Rightarrow> nat
     \<Rightarrow> rat \<times> staging_consumption list \<times> nat" where
  "select_lots session_token [] qty_remaining staging n = (qty_remaining, staging, n)"
| "select_lots session_token (batch # batches) qty_remaining staging n =
     (if qty_remaining \<le> 0 then (qty_remaining, staging, n)
      else
        let on_hand = float64 (on_hand_oz batch);
            qty_to_take = min qty_remaining on_hand
        in select_lots session_token batches (float64 (qty_remaining - qty_to_take))
             (staging @ [\<lparr>sc_session_token = session_token,
                           sc_ingredient_batch_id = ingredient_batch_id batch,
                           sc_qty_oz = qty_to_take\<rparr>])
             (Suc n))"

definition delete_staging :: "string \<Rightarrow> staging_consumption list \<Rightarrow> staging_consumption list" where
  "delete_staging session_token staging =
     filter (\<lambda>sc. sc_session_token sc \<noteq> session_token) staging"

text \<open>\<open>sum(float(batch['on_hand_oz']) for batch in available_batches)\<close>.\<close>

definition total_available :: "available_batch list \<Rightarrow> rat" where
  "total_available available = float_sum (map (\<lambda>batch. float64 (on_hand_oz batch)) available)"

text \<open>
  The outer loop over the recipe items. The tables it reads do not change while it
  runs; the staging table and \<open>total_lots_selected\<close> are passed along. The required
  quantity is \<open>float(item['total_qty_needed'])\<close>.
\<close>

fun fefo_items ::
  "database \<Rightarrow> int \<Rightarrow> string \<Rightarrow> recipe_item list \<Rightarrow> staging_consumption list \<Rightarrow> nat
     \<Rightarrow> (fefo_error + nat) \<times> staging_consumption list" where
  "fefo_items db today session_token [] staging n = (Inr n, staging)"
| "fefo_items db today session_token (item # items) staging n =
     (let qty_needed = float64 (total_qty_needed item);
          available = available_batches db today (ingredient_id item)
      in
        if available = [] then
          (case all_batches db today (ingredient_id item) of
             (total_count, with_stock, expired) \<Rightarrow>
               if 0 < total_count
               then (Inl (NoAvailableLots (ingredient_name item) total_count with_stock expired),
                     staging)
               else (Inl (NoBatchesExist (ingredient_name item)), staging))
        else
          if total_available available < qty_needed then
            (Inl (InsufficientTotal (ingredient_name item) qty_needed (length available)
                    (total_available available)
                    (float64 (qty_needed - total_available available))),
             staging)
          else
            (case select_lots session_token available qty_needed staging n of
               (qty_remaining, staging', n') \<Rightarrow>
                 if 0 < qty_remaining
                 then (Inl (InsufficientQuantity (ingredient_name item) qty_remaining),
                       delete_staging session_token staging')
                 else fefo_items db today session_token items staging' n'))"

definition auto_select_lots_fefo ::
  "database \<Rightarrow> int \<Rightarrow> string \<Rightarrow> int \<Rightarrow> string \<Rightarrow> (fefo_error + nat) \<times> database" where
  "auto_select_lots_fefo db today recipe_plan_id produced_units session_token =
     (let items = recipe_items db recipe_plan_id produced_units
      in
        if items = [] then (Inl NoIngredientsFound, db)
        else
          (case fefo_items db today session_token items (t_staging_consumption db) 0 of
             (result, staging) \<Rightarrow> (result, db\<lparr>t_staging_consumption := staging\<rparr>)))"

section \<open>Python's \<open>strip\<close>, \<open>lower\<close>, \<open>isdigit\<close> and \<open>int\<close> on the typed text\<close>

text \<open>
  The answers typed at the prompts are ASCII strings. \<open>int\<close> accepts an optional sign and
  decimal digits, with single underscores between digits; anything else raises
  \<open>ValueError\<close>, which is \<open>None\<close> here.
\<close>

definition is_space :: "char \<Rightarrow> bool" where
  "is_space c \<longleftrightarrow>
     c \<in> set [CHR 0x09, CHR 0x0A, CHR 0x0B, CHR 0x0C, CHR 0x0D,
               CHR 0x1C, CHR 0x1D, CHR 0x1E, CHR 0x1F, CHR 0x20]"

definition strip :: "string \<Rightarrow> string" where
  "strip s = rev (dropWhile is_space (rev (dropWhile is_space s)))"

definition lower :: "string \<Rightarrow> string" where
  "lower s =
     map (\<lambda>c. case map_of (zip ''ABCDEFGHIJKLMNOPQRSTUVWXYZ'' ''abcdefghijklmnopqrstuvwxyz'') c of
                 Some d \<Rightarrow> d
               | None \<Rightarrow> c) s"

definition is_digit :: "char \<Rightarrow> bool" where
  "is_digit c \<longleftrightarrow> c \<in> set ''0123456789''"

definition digit_val :: "char \<Rightarrow> int" where
  "digit_val c = int (of_char c) - 48"

definition isdigit :: "string \<Rightarrow> bool" where
  "isdigit s \<longleftrightarrow> s \<noteq> [] \<and> list_all is_digit s"

fun int_digits :: "int \<Rightarrow> string \<Rightarrow> int option" where
  "int_digits acc [] = Some acc"
| "int_digits acc [c] = (if is_digit c then Some (10 * acc + digit_val c) else None)"
| "int_digits acc (c # d # cs) =
     (if is_digit c then int_digits (10 * acc + digit_val c) (d # cs)
      else if c = CHR ''_'' \<and> is_digit d then int_digits (10 * acc + digit_val d) cs
      else None)"

definition int_unsigned :: "string \<Rightarrow> int option" where
  "int_unsigned s =
     (case s of
        [] \<Rightarrow> None
      | c # cs \<Rightarrow> if is_digit c then int_digits (digit_val c) cs else None)"

definition py_int :: "string \<Rightarrow> int option" where
  "py_int s =
     (case strip s of
        [] \<Rightarrow> None
      | c # cs \<Rightarrow>
          if c = CHR ''-'' then map_option uminus (int_unsigned cs)
          else if c = CHR ''+'' then int_unsigned cs
          else int_unsigned (c # cs))"

section \<open>\<open>create_product_batch\<close>\<close>

text \<open>
  The answers to the prompts of \<open>create_product_batch\<close>, in the order they are asked.
\<close>

record batch_input =
  in_recipe_plan_id :: string
  in_batch_units :: string
  in_selection_choice :: string
  in_proceed :: string
  in_confirm :: string

text \<open>The parameters of \<open>CALL sp_record_product_batch(%s, %s, %s, %s, %s)\<close>.\<close>

record sp_params =
  p_session_token :: string
  p_product_type_id :: int
  p_recipe_plan_id :: string
  p_produced_units :: int
  p_manufacturer_id :: string

text \<open>What the function prints before it returns.\<close>

datatype batch_outcome =
    NoManufacturer
  | NoRecipePlans
  | NoRecipeId
  | RecipeNotFound
  | NoBatchUnits
  | InvalidQuantity
  | FefoFailed fefo_error
  | InvalidChoice
  | NotProceeding
  | NoProductType
  | Cancelled
  | BatchCreated
  | BatchError

text \<open>
  \<open>active_recipes\<close> and \<open>recipe_check\<close>: recipe plans joined with the product types of
  the manufacturer. The left join and the grouping of the first query only add a count
  to each row.
\<close>

definition active_recipes :: "database \<Rightarrow> string \<Rightarrow> recipe_plan list" where
  "active_recipes db mfg_id =
     [rp. rp \<leftarrow> t_recipe_plan db, pt \<leftarrow> t_product_type db,
          rp_product_type_id rp = pt_product_type_id pt, pt_manufacturer_id pt = mfg_id]"

definition recipe_check :: "database \<Rightarrow> string \<Rightarrow> string \<Rightarrow> recipe_plan list" where
  "recipe_check db recipe_plan_id mfg_id =
     [rp. rp \<leftarrow> t_recipe_plan db, pt \<leftarrow> t_product_type db,
          rp_product_type_id rp = pt_product_type_id pt,
          rp_recipe_plan_id rp = recipe_plan_id, pt_manufacturer_id pt = mfg_id]"

definition product_type_result :: "database \<Rightarrow> string \<Rightarrow> int list" where
  "product_type_result db recipe_plan_id =
     [rp_product_type_id rp. rp \<leftarrow> t_recipe_plan db, rp_recipe_plan_id rp = recipe_plan_id]"

text \<open>
  The staging rows shown for choice 2: every row of \<open>staging_consumption\<close> that joins
  with its lot and the lot's ingredient, whatever its session token.
\<close>

definition current_staging :: "database \<Rightarrow> staging_consumption list" where
  "current_staging db =
     [sc. sc \<leftarrow> t_staging_consumption db, ib \<leftarrow> t_ingredient_batch db,
          sc_ingredient_batch_id sc = ib_ingredient_batch_id ib,
          i \<leftarrow> t_ingredient db, ib_ingredient_id ib = i_ingredient_id i]"

text \<open>\<open>if session_token:\<close> holds for a string that is not empty, and not for \<open>None\<close>.\<close>

definition truthy :: "string option \<Rightarrow> bool" where
  "truthy session_token \<longleftrightarrow> (case session_token of None \<Rightarrow> False | Some t \<Rightarrow> t \<noteq> [])"

definition cleanup_staging :: "string option \<Rightarrow> database \<Rightarrow> database" where
  "cleanup_staging session_token db =
     (case session_token of
        None \<Rightarrow> db
      | Some t \<Rightarrow>
          if t \<noteq> []
          then db\<lparr>t_staging_consumption := delete_staging t (t_staging_consumption db)\<rparr>
          else db)"

text \<open>
  The part of \<open>create_product_batch\<close> that both choices reach: the product type lookup,
  the confirmation and the call. The stored procedure is not part of the Python
  sources: it is the parameter \<open>sp\<close>, which returns the tables after the call, or
  \<open>None\<close> when the call raises (the tables are then as before the call).
\<close>

definition record_product_batch ::
  "(sp_params \<Rightarrow> database \<Rightarrow> database option) \<Rightarrow> string option \<Rightarrow> string \<Rightarrow> int \<Rightarrow> string
     \<Rightarrow> string \<Rightarrow> database \<Rightarrow> batch_outcome \<times> database" where
  "record_product_batch sp session_token recipe_plan_id batch_units mfg_id confirm db =
     (case product_type_result db recipe_plan_id of
        [] \<Rightarrow> (NoProductType, db)
      | product_type_id # _ \<Rightarrow>
          if lower (strip confirm) \<noteq> ''y'' then (Cancelled, cleanup_staging session_token db)
          else
            let params =
              \<lparr>p_session_token = (if truthy session_token then the session_token else []),
               p_product_type_id = product_type_id,
               p_recipe_plan_id = recipe_plan_id,
               p_produced_units = batch_units,
               p_manufacturer_id = mfg_id\<rparr>
            in
              (case sp params db of
                 Some db' \<Rightarrow> (BatchCreated, db')
               | None \<Rightarrow> (BatchError, cleanup_staging session_token db)))"

text \<open>
  \<open>manufacturer_id\<close> is \<open>user.get('manufacturer_id')\<close>, \<open>uuid4\<close> the text of the fresh
  \<open>uuid.uuid4()\<close>.
\<close>

definition create_product_batch ::
  "(sp_params \<Rightarrow> database \<Rightarrow> database option) \<Rightarrow> int \<Rightarrow> string \<Rightarrow> string option
     \<Rightarrow> batch_input \<Rightarrow> database \<Rightarrow> batch_outcome \<times> database" where
  "create_product_batch sp today uuid4 manufacturer_id inp db =
     (case manufacturer_id of
        None \<Rightarrow> (NoManufacturer, db)
      | Some mfg_id \<Rightarrow>
          if mfg_id = [] then (NoManufacturer, db)
          else if active_recipes db mfg_id = [] then (NoRecipePlans, db)
          else
            let recipe_plan_id = strip (in_recipe_plan_id inp) in
            if recipe_plan_id = [] then (NoRecipeId, db)
            else if recipe_check db recipe_plan_id mfg_id = [] then (RecipeNotFound, db)
            else
              let batch_units = strip (in_batch_units inp) in
              if batch_units = [] then (NoBatchUnits, db)
              else
                (case py_int batch_units of
                   None \<Rightarrow> (InvalidQuantity, db)
                 | Some units \<Rightarrow>
                     let selection_choice = strip (in_selection_choice inp) in
                     if selection_choice = ''1'' then
                       (case auto_select_lots_fefo db today recipe_plan_id units uuid4 of
                          (Inl e, db1) \<Rightarrow> (FefoFailed e, db1)
                        | (Inr lots_selected, db1) \<Rightarrow>
                            record_product_batch sp (Some uuid4) recipe_plan_id units mfg_id
                              (in_confirm inp) db1)
                     else if selection_choice = ''2'' then
                       if current_staging db = [] \<and> lower (strip (in_proceed inp)) \<noteq> ''y''
                       then (NotProceeding, db)
                       else
                         record_product_batch sp None recipe_plan_id units mfg_id
                           (in_confirm inp) db
                     else (InvalidChoice, db)))"

section \<open>\<open>trace_product_recall\<close>\<close>

text \<open>
  The function up to its call of \<open>sp_trace_recall\<close>: the three answers typed, and either
  the message it stops with or the parameters \<open>(ingredient_id, lot_number, days_window)\<close>
  of the call.
\<close>

datatype trace_outcome =
    InvalidIngredientId
  | UncaughtValueError
  | LotNumberRequired
  | InvalidTraceChoice
  | CallTraceRecall "int option" "string option" int

definition days_window_of :: "string \<Rightarrow> int" where
  "days_window_of answer =
     (let days_window = strip answer
      in if days_window = [] then 20
         else (case py_int days_window of Some d \<Rightarrow> d | None \<Rightarrow> 20))"

definition trace_product_recall :: "string \<Rightarrow> string \<Rightarrow> string \<Rightarrow> trace_outcome" where
  "trace_product_recall choice_answer target_answer days_answer =
     (let trace_choice = strip choice_answer in
      if trace_choice = ''1'' then
        (let ingredient_id = strip target_answer in
         if ingredient_id = [] \<or> \<not> isdigit ingredient_id then InvalidIngredientId
         else
           (case py_int ingredient_id of
              None \<Rightarrow> UncaughtValueError
            | Some i \<Rightarrow> CallTraceRecall (Some i) None (days_window_of days_answer)))
      else if trace_choice = ''2'' then
        (let lot_number = strip target_answer in
         if lot_number = [] then LotNumberRequired
         else CallTraceRecall None (Some lot_number) (days_window_of days_answer))
      else InvalidTraceChoice)"

section \<open>Notions the statements use\<close>

text \<open>
  The rows \<open>select_lots\<close> appends and the quantity it leaves, read off a run that
  starts from an empty staging table.
\<close>

definition staged_rows :: "string \<Rightarrow> available_batch list \<Rightarrow> rat \<Rightarrow> staging_consumption list" where
  "staged_rows tok bs rem = fst (snd (select_lots tok bs rem [] 0))"

definition qty_left :: "string \<Rightarrow> available_batch list \<Rightarrow> rat \<Rightarrow> rat" where
  "qty_left tok bs rem = fst (select_lots tok bs rem [] 0)"

text \<open>
  A staging row \<open>sc\<close> written under token \<open>tok\<close> for the lot of the query row \<open>b\<close>: its
  quantity is positive and at most the on-hand quantity the loop read for the lot.
\<close>

definition staged_from :: "string \<Rightarrow> staging_consumption \<Rightarrow> available_batch \<Rightarrow> bool" where
  "staged_from tok sc b \<longleftrightarrow>
     sc_session_token sc = tok \<and> sc_ingredient_batch_id sc = ingredient_batch_id b \<and>
     0 < sc_qty_oz sc \<and> sc_qty_oz sc \<le> float64 (on_hand_oz b)"


text \<open>
  The quantity staged under a token for an ingredient: the staging rows of the token,
  joined with their lots as in the query that lists the selection
  (\<open>staging_consumption sc JOIN ingredient_batch ib ON sc.ingredient_batch_id = ib.ingredient_batch_id
  WHERE sc.session_token = %s\<close>), summed over the lots of the ingredient.
\<close>

definition qty_for ::
  "ingredient_batch list \<Rightarrow> string \<Rightarrow> int \<Rightarrow> staging_consumption list \<Rightarrow> rat" where
  "qty_for ibs tok ing rows =
     sum_list [sc_qty_oz sc. sc \<leftarrow> rows, ib \<leftarrow> ibs,
               sc_ingredient_batch_id sc = ib_ingredient_batch_id ib,
               sc_session_token sc = tok, ib_ingredient_id ib = ing]"



text \<open>
  Modelled from the spec: the staging rows \<open>sp_record_product_batch\<close> consumes. The
  stored procedure is in \<open>sql/01_schema_and_logic.sql\<close>, which is not among the sources;
  the specification of the batch commit says that the commit takes the rows of the
  session token, or, for the sentinel, all currently staged allocations, unscoped.
  The sentinel the Python code passes is the empty token.
\<close>

definition sp_staged_rows :: "string \<Rightarrow> database \<Rightarrow> staging_consumption list" where
  "sp_staged_rows session_token db =
     (if session_token = [] then t_staging_consumption db
      else filter (\<lambda>sc. sc_session_token sc = session_token) (t_staging_consumption db))"

section \<open>A small plant\<close>

text \<open>
  Beef has two live lots (4 oz expiring on day 105, 20 oz expiring on day 120), salt a
  quarter ounce, thyme one lot that expired on day 90, yeast two lots of 3 oz that expire
  on the same day; today is day 100. Plan 10 needs 5 oz of beef a unit, plan 11 beef
  and half an ounce of salt, plan 12 thyme, plan 13 12 oz of beef, plan 14 2 oz of
  yeast. Another session has one row staged.
\<close>

definition plant :: database where
  "plant =
     \<lparr>t_ingredient =
        [\<lparr>i_ingredient_id = 1, i_name = ''Beef''\<rparr>,
         \<lparr>i_ingredient_id = 2, i_name = ''Salt''\<rparr>,
         \<lparr>i_ingredient_id = 3, i_name = ''Thyme''\<rparr>,
         \<lparr>i_ingredient_id = 4, i_name = ''Yeast''\<rparr>],
      t_supplier = [\<lparr>s_supplier_id = 21, s_name = ''Supplier B''\<rparr>],
      t_recipe_plan_item =
        [\<lparr>rpi_recipe_plan_id = ''10'', rpi_ingredient_id = 1, rpi_qty_oz_per_unit = 5\<rparr>,
         \<lparr>rpi_recipe_plan_id = ''11'', rpi_ingredient_id = 2, rpi_qty_oz_per_unit = 1 / 2\<rparr>,
         \<lparr>rpi_recipe_plan_id = ''11'', rpi_ingredient_id = 1, rpi_qty_oz_per_unit = 5\<rparr>,
         \<lparr>rpi_recipe_plan_id = ''12'', rpi_ingredient_id = 3, rpi_qty_oz_per_unit = 1\<rparr>,
         \<lparr>rpi_recipe_plan_id = ''13'', rpi_ingredient_id = 1, rpi_qty_oz_per_unit = 12\<rparr>,
         \<lparr>rpi_recipe_plan_id = ''14'', rpi_ingredient_id = 4, rpi_qty_oz_per_unit = 2\<rparr>],
      t_ingredient_batch =
        [\<lparr>ib_ingredient_batch_id = 9002, ib_ingredient_id = 1, ib_supplier_id = 21,
          ib_lot_number = ''B'', ib_on_hand_oz = 20, ib_expiration_date = 120\<rparr>,
         \<lparr>ib_ingredient_batch_id = 9001, ib_ingredient_id = 1, ib_supplier_id = 21,
          ib_lot_number = ''A'', ib_on_hand_oz = 4, ib_expiration_date = 105\<rparr>,
         \<lparr>ib_ingredient_batch_id = 9003, ib_ingredient_id = 2, ib_supplier_id = 21,
          ib_lot_number = ''S'', ib_on_hand_oz = 1 / 4, ib_expiration_date = 150\<rparr>,
         \<lparr>ib_ingredient_batch_id = 9004, ib_ingredient_id = 3, ib_supplier_id = 21,
          ib_lot_number = ''T'', ib_on_hand_oz = 7, ib_expiration_date = 90\<rparr>,
         \<lparr>ib_ingredient_batch_id = 9006, ib_ingredient_id = 4, ib_supplier_id = 21,
          ib_lot_number = ''Y2'', ib_on_hand_oz = 3, ib_expiration_date = 130\<rparr>,
         \<lparr>ib_ingredient_batch_id = 9005, ib_ingredient_id = 4, ib_supplier_id = 21,
          ib_lot_number = ''Y1'', ib_on_hand_oz = 3, ib_expiration_date = 130\<rparr>],
      t_staging_consumption =
        [\<lparr>sc_session_token = ''other'', sc_ingredient_batch_id = 9002, sc_qty_oz = 1\<rparr>],
      t_product_type =
        [\<lparr>pt_product_type_id = 100, pt_manufacturer_id = ''MFG001'', pt_name = ''Steak Dinner''\<rparr>],
      t_recipe_plan =
        [\<lparr>rp_recipe_plan_id = ''10'', rp_product_type_id = 100\<rparr>,
         \<lparr>rp_recipe_plan_id = ''11'', rp_product_type_id = 100\<rparr>,
         \<lparr>rp_recipe_plan_id = ''12'', rp_product_type_id = 100\<rparr>,
         \<lparr>rp_recipe_plan_id = ''13'', rp_product_type_id = 100\<rparr>,
         \<lparr>rp_recipe_plan_id = ''14'', rp_product_type_id = 100\<rparr>]\<rparr>"

definition answers :: "string \<Rightarrow> string \<Rightarrow> string \<Rightarrow> string \<Rightarrow> batch_input" where
  "answers plan units choice confirm =
     \<lparr>in_recipe_plan_id = plan, in_batch_units = units, in_selection_choice = choice,
      in_proceed = ''n'', in_confirm = confirm\<rparr>"

text \<open>A stored procedure that always raises, and one that returns the tables unchanged.\<close>

definition sp_raises :: "sp_params \<Rightarrow> database \<Rightarrow> database option" where
  "sp_raises params db = None"

definition sp_returns :: "sp_params \<Rightarrow> database \<Rightarrow> database option" where
  "sp_returns params db = Some db"

text \<open>A stored procedure that raises unless it is called with the empty token.\<close>

definition sp_if_unscoped :: "sp_params \<Rightarrow> database \<Rightarrow> database option" where
  "sp_if_unscoped params db = (if p_session_token params = [] then Some db else None)"

text \<open>
  A pantry with quantities that are not binary fractions. Flour has lots of 1 oz and
  0.1 oz, sugar lots of 0.7 oz and 0.1 oz, oil lots of 1 oz, 0.1 oz and 5 oz, all live
  on day 100; the lots of an ingredient expire in the order they are listed. The one
  lot of rye is empty. Plans 20 and 22 need 1.1 oz of flour and of oil a unit, plan 21
  0.8 oz of sugar, plan 23 1.1 oz of oil and 1 oz of rye.
\<close>

definition pantry :: database where
  "pantry =
     \<lparr>t_ingredient =
        [\<lparr>i_ingredient_id = 1, i_name = ''Flour''\<rparr>,
         \<lparr>i_ingredient_id = 2, i_name = ''Sugar''\<rparr>,
         \<lparr>i_ingredient_id = 3, i_name = ''Oil''\<rparr>,
         \<lparr>i_ingredient_id = 4, i_name = ''Rye''\<rparr>],
      t_supplier = [\<lparr>s_supplier_id = 21, s_name = ''Supplier B''\<rparr>],
      t_recipe_plan_item =
        [\<lparr>rpi_recipe_plan_id = ''20'', rpi_ingredient_id = 1, rpi_qty_oz_per_unit = 11 / 10\<rparr>,
         \<lparr>rpi_recipe_plan_id = ''21'', rpi_ingredient_id = 2, rpi_qty_oz_per_unit = 8 / 10\<rparr>,
         \<lparr>rpi_recipe_plan_id = ''22'', rpi_ingredient_id = 3, rpi_qty_oz_per_unit = 11 / 10\<rparr>,
         \<lparr>rpi_recipe_plan_id = ''23'', rpi_ingredient_id = 4, rpi_qty_oz_per_unit = 1\<rparr>,
         \<lparr>rpi_recipe_plan_id = ''23'', rpi_ingredient_id = 3, rpi_qty_oz_per_unit = 11 / 10\<rparr>],
      t_ingredient_batch =
        [\<lparr>ib_ingredient_batch_id = 9101, ib_ingredient_id = 1, ib_supplier_id = 21,
          ib_lot_number = ''F1'', ib_on_hand_oz = 1, ib_expiration_date = 110\<rparr>,
         \<lparr>ib_ingredient_batch_id = 9102, ib_ingredient_id = 1, ib_supplier_id = 21,
          ib_lot_number = ''F2'', ib_on_hand_oz = 1 / 10, ib_expiration_date = 120\<rparr>,
         \<lparr>ib_ingredient_batch_id = 9103, ib_ingredient_id = 2, ib_supplier_id = 21,
          ib_lot_number = ''S1'', ib_on_hand_oz = 7 / 10, ib_expiration_date = 110\<rparr>,
         \<lparr>ib_ingredient_batch_id = 9104, ib_ingredient_id = 2, ib_supplier_id = 21,
          ib_lot_number = ''S2'', ib_on_hand_oz = 1 / 10, ib_expiration_date = 120\<rparr>,
         \<lparr>ib_ingredient_batch_id = 9105, ib_ingredient_id = 3, ib_supplier_id = 21,
          ib_lot_number = ''O1'', ib_on_hand_oz = 1, ib_expiration_date = 110\<rparr>,
         \<lparr>ib_ingredient_batch_id = 9106, ib_ingredient_id = 3, ib_supplier_id = 21,
          ib_lot_number = ''O2'', ib_on_hand_oz = 1 / 10, ib_expiration_date = 120\<rparr>,
         \<lparr>ib_ingredient_batch_id = 9107, ib_ingredient_id = 3, ib_supplier_id = 21,
          ib_lot_number = ''O3'', ib_on_hand_oz = 5, ib_expiration_date = 130\<rparr>,
         \<lparr>ib_ingredient_batch_id = 9108, ib_ingredient_id = 4, ib_supplier_id = 21,
          ib_lot_number = ''R1'', ib_on_hand_oz = 0, ib_expiration_date = 140\<rparr>],
      t_staging_consumption = [],
      t_product_type = [],
      t_recipe_plan = []\<rparr>"

section \<open>Rounding keeps the sign\<close>

lemma bit_length_upper: "n < 2 ^ bit_length n"
proof (induction n rule: bit_length.induct)
  case (1 n)
  show ?case
  proof (cases "n = 0")
    case True
    then show ?thesis by (simp add: bit_length.simps)
  next
    case False
    then have "n div 2 < 2 ^ bit_length (n div 2)" using 1 by simp
    then have "n < 2 * 2 ^ bit_length (n div 2)" by linarith
    then show ?thesis using False by (subst bit_length.simps) simp
  qed
qed

lemma bit_length_lower: "0 < n \<Longrightarrow> 2 ^ bit_length n \<le> 2 * n"
proof (induction n rule: bit_length.induct)
  case (1 n)
  then have n: "n \<noteq> 0" by simp
  show ?case
  proof (cases "n div 2 = 0")
    case True
    then have "n = 1" using n by linarith
    then show ?thesis by (simp add: bit_length.simps)
  next
    case False
    then have "2 ^ bit_length (n div 2) \<le> 2 * (n div 2)" using 1 n by simp
    then have "2 * 2 ^ bit_length (n div 2) \<le> 2 * n" by linarith
    then show ?thesis using n by (subst bit_length.simps) simp
  qed
qed

lemma half_scale: "(x::nat) * 2 ^ 53 \<le> 2 * n \<Longrightarrow> x \<le> n"
proof -
  assume "x * 2 ^ 53 \<le> 2 * n"
  then have "x * 9007199254740992 \<le> 2 * n" by simp
  then show ?thesis by linarith
qed

lemma pow2_pos: "0 < pow2 e"
  by (simp add: pow2_def)

lemma ulp_below:
  assumes "0 < a"
  shows "pow2 (ulp_exponent a) \<le> a"
proof (cases "1 \<le> a")
  case True
  let ?n = "nat \<lfloor>a\<rfloor>"
  let ?e = "int (bit_length ?n) - 53"
  have e: "ulp_exponent a = ?e" using True by (simp add: ulp_exponent_def)
  have n: "0 < ?n" using True by simp
  have na: "of_nat ?n \<le> a" using True by (simp add: of_nat_nat)
  show ?thesis
  proof (cases "0 \<le> ?e")
    case False
    then have "pow2 ?e \<le> 1" by (simp add: pow2_def)
    then show ?thesis using True e by simp
  next
    case ge: True
    then have k: "nat ?e + 53 = bit_length ?n" by simp
    have "(2::nat) ^ nat ?e * 2 ^ 53 = 2 ^ bit_length ?n"
      unfolding power_add [symmetric] k ..
    also have "\<dots> \<le> 2 * ?n" using n by (rule bit_length_lower)
    finally have "(2::nat) ^ nat ?e * 2 ^ 53 \<le> 2 * ?n" .
    then have "(2::nat) ^ nat ?e \<le> ?n" by (rule half_scale)
    then have "(of_nat (2 ^ nat ?e) :: rat) \<le> of_nat ?n" by (simp only: of_nat_le_iff)
    then have "pow2 ?e \<le> of_nat ?n" using ge by (simp add: pow2_def)
    then show ?thesis using na e by simp
  qed
next
  case False
  let ?m = "nat \<lfloor>1 / a\<rfloor>"
  let ?k = "bit_length ?m + 52"
  have e: "pow2 (ulp_exponent a) = 1 / 2 ^ ?k"
    using False by (simp add: ulp_exponent_def pow2_def nat_add_distrib)
  have "0 \<le> \<lfloor>1 / a\<rfloor>" using assms by simp
  then have m: "of_int \<lfloor>1 / a\<rfloor> = (of_nat ?m :: rat)" by simp
  have "1 / a < of_int \<lfloor>1 / a\<rfloor> + 1" by linarith
  then have "1 / a < of_nat (?m + 1)" using m by simp
  also have "?m + 1 \<le> 2 ^ bit_length ?m" using bit_length_upper [of ?m] by linarith
  then have "(of_nat (?m + 1) :: rat) \<le> of_nat (2 ^ bit_length ?m)" by (simp only: of_nat_le_iff)
  also have "(of_nat (2 ^ bit_length ?m) :: rat) \<le> 2 ^ ?k" by (simp add: power_add)
  finally have "1 / a < 2 ^ ?k" .
  then have "1 < 2 ^ ?k * a" using assms by (simp add: field_simps)
  then have "1 / 2 ^ ?k \<le> a" by (simp add: field_simps)
  then show ?thesis using e by simp
qed

lemma round_half_even_pos: "1 \<le> s \<Longrightarrow> 0 < round_half_even s"
proof -
  assume "1 \<le> s"
  then have "1 \<le> \<lfloor>s\<rfloor>" by simp
  then show ?thesis by (simp add: round_half_even_def Let_def)
qed

lemma float_pos_pos: "0 < a \<Longrightarrow> 0 < float_pos a"
proof -
  assume a: "0 < a"
  have "1 \<le> a / pow2 (ulp_exponent a)"
    using ulp_below [OF a] pow2_pos [of "ulp_exponent a"] by (simp add: field_simps)
  then have "0 < round_half_even (a / pow2 (ulp_exponent a))" by (rule round_half_even_pos)
  then show ?thesis
    using pow2_pos [of "ulp_exponent a"] by (simp add: float_pos_def)
qed

lemma float64_zero [simp]: "float64 0 = 0"
  by (simp add: float64_def)

lemma float64_pos: "0 < x \<Longrightarrow> 0 < float64 x"
  by (simp add: float64_def float_pos_pos)

lemma float64_neg: "x < 0 \<Longrightarrow> float64 x < 0"
  using float_pos_pos [of "- x"] by (simp add: float64_def)


lemma float64_nonpos: "x \<le> 0 \<Longrightarrow> float64 x \<le> 0"
  using float64_neg [of x] by (cases "x = 0") auto

lemma float64_pos_iff [simp]: "0 < float64 x \<longleftrightarrow> 0 < x"
  using float64_pos [of x] float64_nonpos [of x] by (cases "0 < x") auto

lemma float64_nonpos_iff [simp]: "float64 x \<le> 0 \<longleftrightarrow> x \<le> 0"
  using float64_pos_iff [of x] by linarith

text \<open>Rules that compute \<open>float64\<close> on a numeral.\<close>

lemma floor_rat_numeral [simp]:
  "\<lfloor>numeral a / numeral b :: rat\<rfloor> = numeral a div numeral b"
  using floor_divide_of_int_eq [of "numeral a" "numeral b", where ?'a = rat] by simp

lemmas float_eval =
  float64_def float_pos_def round_half_even_def ulp_exponent_def pow2_def bit_length.simps
  float_sum_def total_available_def Let_def

lemma float64_values:
  "float64 (1 / 10) = 3602879701896397 / 36028797018963968"
  "float64 (7 / 10) = 3152519739159347 / 4503599627370496"
  "float64 (8 / 10) = 3602879701896397 / 4503599627370496"
  "float64 (11 / 10) = 2476979795053773 / 2251799813685248"
  "float64 (1 / 4) = 1 / 4"
  "float64 20 = 20"
  "float64 (- 5) = - 5"
  by (simp_all add: float_eval)

lemma float_sum_pos:
  "0 < acc \<Longrightarrow> \<forall>x\<in>set xs. 0 < x \<Longrightarrow> 0 < foldl (\<lambda>acc y. float64 (acc + y)) acc xs"
proof (induction xs arbitrary: acc)
  case Nil
  then show ?case by simp
next
  case (Cons x xs)
  have "0 < float64 (acc + x)" using Cons.prems by simp
  then show ?case using Cons.IH [of "float64 (acc + x)"] Cons.prems(2) by simp
qed

lemma total_available_pos:
  assumes "bs \<noteq> []" "\<forall>b\<in>set bs. 0 < on_hand_oz b"
  shows "0 < total_available bs"
proof -
  obtain b rest where bs: "bs = b # rest" using assms(1) by (cases bs) auto
  have "0 < float64 (on_hand_oz b)" using assms(2) bs by simp
  moreover have "\<forall>x\<in>set (map (\<lambda>batch. float64 (on_hand_oz batch)) rest). 0 < x"
    using assms(2) bs by simp
  ultimately have "0 < foldl (\<lambda>acc y. float64 (acc + y)) (float64 (on_hand_oz b))
      (map (\<lambda>batch. float64 (on_hand_oz batch)) rest)"
    by (rule float_sum_pos)
  then show ?thesis by (simp add: total_available_def float_sum_def bs)
qed

section \<open>The inner loop\<close>

lemma select_lots_acc:
  "select_lots tok bs rem st n =
     (case select_lots tok bs rem [] 0 of (r, new, k) \<Rightarrow> (r, st @ new, n + k))"
proof (induction bs arbitrary: rem st n)
  case Nil
  show ?case by simp
next
  case (Cons b bs)
  show ?case
  proof (cases "rem \<le> 0")
    case True
    then show ?thesis by simp
  next
    case False
    let ?q = "min rem (float64 (on_hand_oz b))"
    let ?row = "\<lparr>sc_session_token = tok, sc_ingredient_batch_id = ingredient_batch_id b, sc_qty_oz = ?q\<rparr>"
    have a: "select_lots tok (b # bs) rem st n =
        select_lots tok bs (float64 (rem - ?q)) (st @ [?row]) (Suc n)"
      using False by (simp add: Let_def)
    have b: "select_lots tok (b # bs) rem [] 0 =
        select_lots tok bs (float64 (rem - ?q)) [?row] (Suc 0)"
      using False by (simp add: Let_def)
    show ?thesis
      unfolding a b
      by (subst Cons.IH [of _ "st @ [?row]"], subst Cons.IH [of _ "[?row]"]) (simp split: prod.splits)
  qed
qed

lemma staged_rows_Nil [simp]: "staged_rows tok [] rem = []"
  by (simp add: staged_rows_def)

lemma qty_left_Nil [simp]: "qty_left tok [] rem = rem"
  by (simp add: qty_left_def)

lemma staged_rows_Cons:
  "staged_rows tok (b # bs) rem =
     (if rem \<le> 0 then []
      else \<lparr>sc_session_token = tok, sc_ingredient_batch_id = ingredient_batch_id b,
             sc_qty_oz = min rem (float64 (on_hand_oz b))\<rparr>
           # staged_rows tok bs (float64 (rem - min rem (float64 (on_hand_oz b)))))"
  unfolding staged_rows_def
  by (simp add: Let_def, subst select_lots_acc) (simp split: prod.splits)

lemma qty_left_Cons:
  "qty_left tok (b # bs) rem =
     (if rem \<le> 0 then rem
      else qty_left tok bs (float64 (rem - min rem (float64 (on_hand_oz b)))))"
  unfolding qty_left_def
  by (simp add: Let_def, subst select_lots_acc) (simp split: prod.splits)

lemma select_lots_count:
  "snd (snd (select_lots tok bs rem [] 0)) = length (staged_rows tok bs rem)"
proof (induction bs arbitrary: rem)
  case Nil
  show ?case by simp
next
  case (Cons b bs)
  show ?case
  proof (cases "rem \<le> 0")
    case True
    then show ?thesis by (simp add: staged_rows_Cons)
  next
    case False
    then show ?thesis
      using Cons.IH [of "float64 (rem - min rem (float64 (on_hand_oz b)))"]
      by (simp add: staged_rows_Cons Let_def, subst select_lots_acc) (auto split: prod.splits)
  qed
qed

lemma select_lots_eq:
  "select_lots tok bs rem st n =
     (qty_left tok bs rem, st @ staged_rows tok bs rem, n + length (staged_rows tok bs rem))"
  using select_lots_count [of tok bs rem]
  by (subst select_lots_acc) (auto simp: qty_left_def staged_rows_def split: prod.splits)



lemma staged_rows_prefix:
  "\<forall>b\<in>set bs. 0 < on_hand_oz b \<Longrightarrow>
     list_all2 (staged_from tok) (staged_rows tok bs rem) (take (length (staged_rows tok bs rem)) bs)"
  by (induction bs arbitrary: rem) (auto simp: staged_rows_Cons staged_from_def)


lemma staged_rows_nonpos: "rem \<le> 0 \<Longrightarrow> staged_rows tok bs rem = []"
  by (cases bs) (simp_all add: staged_rows_Cons)

lemma qty_left_nonpos: "rem \<le> 0 \<Longrightarrow> qty_left tok bs rem = rem"
  by (cases bs) (simp_all add: qty_left_Cons)

lemma available_batches_set:
  "b \<in> set (available_batches db today ing) \<Longrightarrow>
     0 < on_hand_oz b \<and> today \<le> expiration_date b \<and>
     (\<exists>ib\<in>set (t_ingredient_batch db).
        ib_ingredient_batch_id ib = ingredient_batch_id b \<and> ib_ingredient_id ib = ing \<and>
        ib_on_hand_oz ib = on_hand_oz b \<and> ib_expiration_date ib = expiration_date b)"
  by (auto simp: available_batches_def split: if_splits)


lemma available_batches_pos: "\<forall>b\<in>set (available_batches db today ing). 0 < on_hand_oz b"
  using available_batches_set by blast

section \<open>The outer loop\<close>

lemma fefo_items_no_lots:
  assumes "available_batches db today (ingredient_id item) = []"
  shows "fefo_items db today tok (item # items) st n =
     (case all_batches db today (ingredient_id item) of
        (total_count, with_stock, expired) \<Rightarrow>
          if 0 < total_count
          then (Inl (NoAvailableLots (ingredient_name item) total_count with_stock expired), st)
          else (Inl (NoBatchesExist (ingredient_name item)), st))"
  using assms by (simp add: Let_def)

lemma fefo_items_short:
  assumes "available_batches db today (ingredient_id item) \<noteq> []"
    and "total_available (available_batches db today (ingredient_id item))
           < float64 (total_qty_needed item)"
  shows "fefo_items db today tok (item # items) st n =
     (Inl (InsufficientTotal (ingredient_name item) (float64 (total_qty_needed item))
             (length (available_batches db today (ingredient_id item)))
             (total_available (available_batches db today (ingredient_id item)))
             (float64 (float64 (total_qty_needed item)
                - total_available (available_batches db today (ingredient_id item))))),
      st)"
  using assms by (simp add: Let_def)

lemma fefo_items_leftover:
  assumes "available_batches db today (ingredient_id item) \<noteq> []"
    and "\<not> total_available (available_batches db today (ingredient_id item))
           < float64 (total_qty_needed item)"
    and "0 < qty_left tok (available_batches db today (ingredient_id item))
               (float64 (total_qty_needed item))"
  shows "fefo_items db today tok (item # items) st n =
     (Inl (InsufficientQuantity (ingredient_name item)
             (qty_left tok (available_batches db today (ingredient_id item))
                (float64 (total_qty_needed item)))),
      delete_staging tok
        (st @ staged_rows tok (available_batches db today (ingredient_id item))
                (float64 (total_qty_needed item))))"
  using assms by (simp add: Let_def select_lots_eq)

lemma fefo_items_step:
  assumes "available_batches db today (ingredient_id item) \<noteq> []"
    and "\<not> total_available (available_batches db today (ingredient_id item))
           < float64 (total_qty_needed item)"
    and "\<not> 0 < qty_left tok (available_batches db today (ingredient_id item))
                 (float64 (total_qty_needed item))"
  shows "fefo_items db today tok (item # items) st n =
     fefo_items db today tok items
       (st @ staged_rows tok (available_batches db today (ingredient_id item))
               (float64 (total_qty_needed item)))
       (n + length (staged_rows tok (available_batches db today (ingredient_id item))
                      (float64 (total_qty_needed item))))"
  using assms by (simp add: Let_def select_lots_eq)

lemma fefo_items_cases:
  obtains
    (no_lots) "available_batches db today (ingredient_id item) = []"
  | (short) "available_batches db today (ingredient_id item) \<noteq> []"
      "total_available (available_batches db today (ingredient_id item))
         < float64 (total_qty_needed item)"
  | (leftover) "available_batches db today (ingredient_id item) \<noteq> []"
      "\<not> total_available (available_batches db today (ingredient_id item))
         < float64 (total_qty_needed item)"
      "0 < qty_left tok (available_batches db today (ingredient_id item))
             (float64 (total_qty_needed item))"
  | (step) "available_batches db today (ingredient_id item) \<noteq> []"
      "\<not> total_available (available_batches db today (ingredient_id item))
         < float64 (total_qty_needed item)"
      "\<not> 0 < qty_left tok (available_batches db today (ingredient_id item))
               (float64 (total_qty_needed item))"
  by blast

declare fefo_items.simps(2) [simp del]

lemma fefo_items_append:
  "fefo_items db today tok (pre @ post) st n =
     (case fefo_items db today tok pre st n of
        (Inr k, st') \<Rightarrow> fefo_items db today tok post st' k
      | (Inl e, st') \<Rightarrow> (Inl e, st'))"
proof (induction pre arbitrary: st n)
  case Nil
  show ?case by simp
next
  case (Cons item pre)
  show ?case
  proof (cases rule: fefo_items_cases [of db today item _ tok])
    case no_lots
    show ?thesis
      unfolding append_Cons fefo_items_no_lots [OF no_lots] by (simp split: prod.splits)
  next
    case short
    show ?thesis
      unfolding append_Cons fefo_items_short [OF short] by simp
  next
    case leftover
    show ?thesis
      unfolding append_Cons fefo_items_leftover [OF leftover] by simp
  next
    case step
    show ?thesis
      unfolding append_Cons fefo_items_step [OF step] by (rule Cons.IH)
  qed
qed

lemma list_all2_left:
  "list_all2 P xs ys \<Longrightarrow> x \<in> set xs \<Longrightarrow> \<exists>y\<in>set ys. P x y"
  by (induction rule: list_all2_induct) auto

text \<open>
  The rows the loop writes: it leaves them after the rows it found, or, on the return
  that cleans up, it leaves what the \<open>DELETE\<close> keeps of both.
\<close>

lemma fefo_items_written:
  "\<exists>written src.
     (snd (fefo_items db today tok items st n) = st @ written \<or>
      snd (fefo_items db today tok items st n) = delete_staging tok (st @ written)) \<and>
     list_all2 (staged_from tok) written src \<and>
     (\<forall>b\<in>set src. \<exists>item\<in>set items. b \<in> set (available_batches db today (ingredient_id item)))"
proof (induction items arbitrary: st n)
  case Nil
  have "snd (fefo_items db today tok [] st n) = st @ []" by simp
  moreover have "list_all2 (staged_from tok) [] []" by simp
  ultimately show ?case by fastforce
next
  case (Cons item items)
  let ?av = "available_batches db today (ingredient_id item)"
  let ?new = "staged_rows tok ?av (float64 (total_qty_needed item))"
  have first: "list_all2 (staged_from tok) ?new (take (length ?new) ?av)"
    using available_batches_pos by (rule staged_rows_prefix)
  show ?case
  proof (cases rule: fefo_items_cases [of db today item _ tok])
    case no_lots
    have "snd (fefo_items db today tok (item # items) st n) = st @ []"
      unfolding fefo_items_no_lots [OF no_lots] by (simp split: prod.splits)
    moreover have "list_all2 (staged_from tok) [] []" by simp
    ultimately show ?thesis by fastforce
  next
    case short
    have "snd (fefo_items db today tok (item # items) st n) = st @ []"
      unfolding fefo_items_short [OF short] by simp
    moreover have "list_all2 (staged_from tok) [] []" by simp
    ultimately show ?thesis by fastforce
  next
    case leftover
    have c: "snd (fefo_items db today tok (item # items) st n) = delete_staging tok (st @ ?new)"
      unfolding fefo_items_leftover [OF leftover] by simp
    have b: "\<forall>b\<in>set (take (length ?new) ?av).
        \<exists>i\<in>set (item # items). b \<in> set (available_batches db today (ingredient_id i))"
      by (auto dest: in_set_takeD)
    show ?thesis
      by (rule exI [of _ ?new], rule exI [of _ "take (length ?new) ?av"])
         (use first b c in blast)
  next
    case step
    obtain written src where ih:
      "snd (fefo_items db today tok items (st @ ?new) (n + length ?new)) = (st @ ?new) @ written \<or>
       snd (fefo_items db today tok items (st @ ?new) (n + length ?new)) =
         delete_staging tok ((st @ ?new) @ written)"
      "list_all2 (staged_from tok) written src"
      "\<forall>b\<in>set src. \<exists>item\<in>set items. b \<in> set (available_batches db today (ingredient_id item))"
      using Cons.IH [of "st @ ?new" "n + length ?new"] by blast
    have a: "list_all2 (staged_from tok) (?new @ written) (take (length ?new) ?av @ src)"
      using first ih(2) by (rule list_all2_appendI)
    have b: "\<forall>b\<in>set (take (length ?new) ?av @ src).
        \<exists>i\<in>set (item # items). b \<in> set (available_batches db today (ingredient_id i))"
      using ih(3) by (auto dest: in_set_takeD)
    have c: "snd (fefo_items db today tok (item # items) st n) = st @ (?new @ written) \<or>
        snd (fefo_items db today tok (item # items) st n) =
          delete_staging tok (st @ (?new @ written))"
      unfolding fefo_items_step [OF step] using ih(1) by simp
    show ?thesis
      by (rule exI [of _ "?new @ written"], rule exI [of _ "take (length ?new) ?av @ src"])
         (use a b c in blast)
  qed
qed

text \<open>A run that succeeds has taken each ingredient through the whole loop body.\<close>

lemma fefo_items_ok_all:
  assumes "fefo_items db today tok items st n = (Inr k, st')"
    and "item \<in> set items"
  shows "available_batches db today (ingredient_id item) \<noteq> [] \<and>
         \<not> total_available (available_batches db today (ingredient_id item))
             < float64 (total_qty_needed item) \<and>
         \<not> 0 < qty_left tok (available_batches db today (ingredient_id item))
                 (float64 (total_qty_needed item))"
  using assms
proof (induction items arbitrary: st n)
  case Nil
  then show ?case by simp
next
  case (Cons i items)
  show ?case
  proof (cases rule: fefo_items_cases [of db today i _ tok])
    case no_lots
    then show ?thesis
      using Cons.prems(1) by (simp add: fefo_items_no_lots split: prod.splits if_splits)
  next
    case short
    then show ?thesis
      using Cons.prems(1) by (simp add: fefo_items_short)
  next
    case leftover
    then show ?thesis
      using Cons.prems(1) by (simp add: fefo_items_leftover)
  next
    case step
    show ?thesis
    proof (cases "item = i")
      case True
      then show ?thesis using step by simp
    next
      case False
      then have "item \<in> set items" using Cons.prems(2) by simp
      moreover note Cons.prems(1) [unfolded fefo_items_step [OF step]]
      ultimately show ?thesis using Cons.IH by blast
    qed
  qed
qed



lemma qty_for_Nil [simp]: "qty_for ibs tok ing [] = 0"
  by (simp add: qty_for_def)







lemmas fefo_eval =
  auto_select_lots_fefo_def recipe_items_def available_batches_def all_batches_def
  fefo_key_def fefo_items.simps delete_staging_def float_eval

lemma auto_select_staging:
  "t_staging_consumption (snd (auto_select_lots_fefo db today rp units tok)) =
     (if recipe_items db rp units = [] then t_staging_consumption db
      else snd (fefo_items db today tok (recipe_items db rp units) (t_staging_consumption db) 0))"
  by (simp add: auto_select_lots_fefo_def Let_def split: prod.splits)

lemma auto_select_tables:
  "t_ingredient_batch (snd (auto_select_lots_fefo db today rp units tok)) = t_ingredient_batch db"
  by (simp add: auto_select_lots_fefo_def Let_def split: prod.splits)


section \<open>Claims about the lot selection\<close>


lemma written_rows_sources:
  fixes items :: "recipe_item list"
  assumes "list_all2 (staged_from tok) written src"
    and "\<forall>b\<in>set src. \<exists>item\<in>set items. b \<in> set (available_batches db today (ingredient_id item))"
    and "sc \<in> set written"
  shows "sc_session_token sc = tok \<and> 0 < sc_qty_oz sc \<and>
     (\<exists>ib\<in>set (t_ingredient_batch db).
        ib_ingredient_batch_id ib = sc_ingredient_batch_id sc \<and>
        sc_qty_oz sc \<le> float64 (ib_on_hand_oz ib) \<and>
        0 < ib_on_hand_oz ib \<and> today \<le> ib_expiration_date ib)"
proof -
  obtain b where b: "b \<in> set src" "staged_from tok sc b"
    using list_all2_left [OF assms(1,3)] by blast
  then obtain item :: recipe_item
    where "b \<in> set (available_batches db today (ingredient_id item))"
    using assms(2) by blast
  from available_batches_set [OF this] obtain ib where ib:
    "ib \<in> set (t_ingredient_batch db)" "ib_ingredient_batch_id ib = ingredient_batch_id b"
    "ib_on_hand_oz ib = on_hand_oz b" "ib_expiration_date ib = expiration_date b"
    "0 < on_hand_oz b" "today \<le> expiration_date b"
    by blast
  have "ib_ingredient_batch_id ib = sc_ingredient_batch_id sc \<and>
        sc_qty_oz sc \<le> float64 (ib_on_hand_oz ib) \<and>
        0 < ib_on_hand_oz ib \<and> today \<le> ib_expiration_date ib"
    using ib b(2) by (simp add: staged_from_def)
  then show ?thesis
    using ib(1) b(2) unfolding staged_from_def by blast
qed








lemma available_batches_empty:
  assumes "\<forall>ib\<in>set (t_ingredient_batch db).
             ib_ingredient_id ib = ing \<longrightarrow> ib_on_hand_oz ib \<le> 0 \<or> ib_expiration_date ib < today"
  shows "available_batches db today ing = []"
proof (rule ccontr)
  assume "available_batches db today ing \<noteq> []"
  then obtain b where "b \<in> set (available_batches db today ing)"
    by (cases "available_batches db today ing") auto
  from available_batches_set [OF this] assms show False
    by force
qed

lemma auto_select_reaches:
  assumes "recipe_items db rp units = pre @ item # post"
    and "fefo_items db today tok pre (t_staging_consumption db) 0 = (Inr k, st)"
  shows "auto_select_lots_fefo db today rp units tok =
     (fst (fefo_items db today tok (item # post) st k),
      db\<lparr>t_staging_consumption := snd (fefo_items db today tok (item # post) st k)\<rparr>)"
proof -
  have "fefo_items db today tok (pre @ item # post) (t_staging_consumption db) 0 =
      fefo_items db today tok (item # post) st k"
    unfolding fefo_items_append [of db today tok pre "item # post"] assms(2) by simp
  then show ?thesis
    using assms(1) by (simp add: auto_select_lots_fefo_def Let_def split: prod.splits)
qed

lemma auto_select_ok:
  assumes "fst (auto_select_lots_fefo db today rp units tok) = Inr k"
  shows "\<exists>st'. fefo_items db today tok (recipe_items db rp units) (t_staging_consumption db) 0 =
           (Inr k, st')"
  using assms
  by (cases "fefo_items db today tok (recipe_items db rp units) (t_staging_consumption db) 0")
     (simp add: auto_select_lots_fefo_def Let_def split: if_splits)

text \<open>
  C4. The selection takes only from lots with a strictly positive on-hand quantity that
  expire today or later: every row it writes is for such a lot. When every lot of an
  ingredient of the recipe is expired or at zero on-hand, the selection does not
  succeed; when it reaches that ingredient, the ingredients before it having been
  selected, it returns the message that no lots are available (or, when the ingredient
  has no lot at all, that no batches exist), not the message of an insufficient total,
  and it stages nothing for the ingredient.
\<close>

theorem no_eligible_lot_fails:
  "(\<exists>written.
      (t_staging_consumption (snd (auto_select_lots_fefo db today rp units tok)) =
         t_staging_consumption db @ written \<or>
       t_staging_consumption (snd (auto_select_lots_fefo db today rp units tok)) =
         delete_staging tok (t_staging_consumption db @ written)) \<and>
      (\<forall>sc\<in>set written.
         \<exists>ib\<in>set (t_ingredient_batch db).
            ib_ingredient_batch_id ib = sc_ingredient_batch_id sc \<and>
            0 < ib_on_hand_oz ib \<and> today \<le> ib_expiration_date ib)) \<and>
   (\<forall>item\<in>set (recipe_items db rp units).
      (\<forall>ib\<in>set (t_ingredient_batch db).
         ib_ingredient_id ib = ingredient_id item \<longrightarrow>
         ib_on_hand_oz ib \<le> 0 \<or> ib_expiration_date ib < today) \<longrightarrow>
      (\<forall>k. fst (auto_select_lots_fefo db today rp units tok) \<noteq> Inr k) \<and>
      (\<forall>pre post k st.
         recipe_items db rp units = pre @ item # post \<and>
         fefo_items db today tok pre (t_staging_consumption db) 0 = (Inr k, st) \<longrightarrow>
         auto_select_lots_fefo db today rp units tok =
           (case all_batches db today (ingredient_id item) of
              (total_count, with_stock, expired) \<Rightarrow>
                if 0 < total_count
                then (Inl (NoAvailableLots (ingredient_name item) total_count with_stock expired),
                      db\<lparr>t_staging_consumption := st\<rparr>)
                else (Inl (NoBatchesExist (ingredient_name item)),
                      db\<lparr>t_staging_consumption := st\<rparr>))))"
proof (rule conjI)
  let ?after = "t_staging_consumption (snd (auto_select_lots_fefo db today rp units tok))"
  show "\<exists>written.
      (?after = t_staging_consumption db @ written \<or>
       ?after = delete_staging tok (t_staging_consumption db @ written)) \<and>
      (\<forall>sc\<in>set written.
         \<exists>ib\<in>set (t_ingredient_batch db).
            ib_ingredient_batch_id ib = sc_ingredient_batch_id sc \<and>
            0 < ib_on_hand_oz ib \<and> today \<le> ib_expiration_date ib)"
  proof (cases "recipe_items db rp units = []")
    case True
    then have "?after = t_staging_consumption db @ []" by (simp add: auto_select_staging)
    then show ?thesis by fastforce
  next
    case False
    obtain written src where w:
      "snd (fefo_items db today tok (recipe_items db rp units) (t_staging_consumption db) 0) =
         t_staging_consumption db @ written \<or>
       snd (fefo_items db today tok (recipe_items db rp units) (t_staging_consumption db) 0) =
         delete_staging tok (t_staging_consumption db @ written)"
      "list_all2 (staged_from tok) written src"
      "\<forall>b\<in>set src. \<exists>item\<in>set (recipe_items db rp units).
          b \<in> set (available_batches db today (ingredient_id item))"
      using fefo_items_written [of db today tok "recipe_items db rp units" "t_staging_consumption db" 0]
      by blast
    have rows: "\<forall>sc\<in>set written.
         \<exists>ib\<in>set (t_ingredient_batch db).
            ib_ingredient_batch_id ib = sc_ingredient_batch_id sc \<and>
            0 < ib_on_hand_oz ib \<and> today \<le> ib_expiration_date ib"
    proof
      fix sc assume "sc \<in> set written"
      from written_rows_sources [OF w(2,3) this]
      show "\<exists>ib\<in>set (t_ingredient_batch db).
            ib_ingredient_batch_id ib = sc_ingredient_batch_id sc \<and>
            0 < ib_on_hand_oz ib \<and> today \<le> ib_expiration_date ib"
        by blast
    qed
    have "?after = t_staging_consumption db @ written \<or>
          ?after = delete_staging tok (t_staging_consumption db @ written)"
      using False w(1) by (simp add: auto_select_staging)
    then show ?thesis using rows by (intro exI [of _ written] conjI)
  qed
next
  show "\<forall>item\<in>set (recipe_items db rp units).
      (\<forall>ib\<in>set (t_ingredient_batch db).
         ib_ingredient_id ib = ingredient_id item \<longrightarrow>
         ib_on_hand_oz ib \<le> 0 \<or> ib_expiration_date ib < today) \<longrightarrow>
      (\<forall>k. fst (auto_select_lots_fefo db today rp units tok) \<noteq> Inr k) \<and>
      (\<forall>pre post k st.
         recipe_items db rp units = pre @ item # post \<and>
         fefo_items db today tok pre (t_staging_consumption db) 0 = (Inr k, st) \<longrightarrow>
         auto_select_lots_fefo db today rp units tok =
           (case all_batches db today (ingredient_id item) of
              (total_count, with_stock, expired) \<Rightarrow>
                if 0 < total_count
                then (Inl (NoAvailableLots (ingredient_name item) total_count with_stock expired),
                      db\<lparr>t_staging_consumption := st\<rparr>)
                else (Inl (NoBatchesExist (ingredient_name item)),
                      db\<lparr>t_staging_consumption := st\<rparr>)))"
  proof (intro ballI impI)
    fix item :: recipe_item
    assume item: "item \<in> set (recipe_items db rp units)"
      and gone: "\<forall>ib\<in>set (t_ingredient_batch db).
         ib_ingredient_id ib = ingredient_id item \<longrightarrow>
         ib_on_hand_oz ib \<le> 0 \<or> ib_expiration_date ib < today"
    have empty: "available_batches db today (ingredient_id item) = []"
      using gone by (rule available_batches_empty)
    have never: "fst (auto_select_lots_fefo db today rp units tok) \<noteq> Inr k" for k
    proof
      assume "fst (auto_select_lots_fefo db today rp units tok) = Inr k"
      then obtain st' where
        "fefo_items db today tok (recipe_items db rp units) (t_staging_consumption db) 0 = (Inr k, st')"
        using auto_select_ok by blast
      from fefo_items_ok_all [OF this item] empty show False by simp
    qed
    have reached: "auto_select_lots_fefo db today rp units tok =
           (case all_batches db today (ingredient_id item) of
              (total_count, with_stock, expired) \<Rightarrow>
                if 0 < total_count
                then (Inl (NoAvailableLots (ingredient_name item) total_count with_stock expired),
                      db\<lparr>t_staging_consumption := st\<rparr>)
                else (Inl (NoBatchesExist (ingredient_name item)),
                      db\<lparr>t_staging_consumption := st\<rparr>))"
      if "recipe_items db rp units = pre @ item # post \<and>
          fefo_items db today tok pre (t_staging_consumption db) 0 = (Inr k, st)"
      for pre post k st
    proof -
      from that have a: "recipe_items db rp units = pre @ item # post"
        and b: "fefo_items db today tok pre (t_staging_consumption db) 0 = (Inr k, st)"
        by simp_all
      have "auto_select_lots_fefo db today rp units tok =
          (fst (fefo_items db today tok (item # post) st k),
           db\<lparr>t_staging_consumption := snd (fefo_items db today tok (item # post) st k)\<rparr>)"
        using a b by (rule auto_select_reaches)
      then show ?thesis
        unfolding fefo_items_no_lots [OF empty] by (simp split: prod.splits)
    qed
    show "(\<forall>k. fst (auto_select_lots_fefo db today rp units tok) \<noteq> Inr k) \<and>
      (\<forall>pre post k st.
         recipe_items db rp units = pre @ item # post \<and>
         fefo_items db today tok pre (t_staging_consumption db) 0 = (Inr k, st) \<longrightarrow>
         auto_select_lots_fefo db today rp units tok =
           (case all_batches db today (ingredient_id item) of
              (total_count, with_stock, expired) \<Rightarrow>
                if 0 < total_count
                then (Inl (NoAvailableLots (ingredient_name item) total_count with_stock expired),
                      db\<lparr>t_staging_consumption := st\<rparr>)
                else (Inl (NoBatchesExist (ingredient_name item)),
                      db\<lparr>t_staging_consumption := st\<rparr>)))"
      using never reached by blast
  qed
qed

theorem no_eligible_lot_fails_witness:
  "auto_select_lots_fefo plant 100 ''12'' 2 ''tok'' =
     (Inl (NoAvailableLots ''Thyme'' 1 1 1), plant) \<and>
   auto_select_lots_fefo pantry 100 ''23'' 1 ''tok'' =
     (Inl (NoAvailableLots ''Rye'' 1 0 0),
      pantry\<lparr>t_staging_consumption :=
        [\<lparr>sc_session_token = ''tok'', sc_ingredient_batch_id = 9105, sc_qty_oz = 1\<rparr>,
         \<lparr>sc_session_token = ''tok'', sc_ingredient_batch_id = 9106,
          sc_qty_oz = 3602879701896397 / 36028797018963968\<rparr>,
         \<lparr>sc_session_token = ''tok'', sc_ingredient_batch_id = 9107,
          sc_qty_oz = 3 / 36028797018963968\<rparr>]\<rparr>)"
proof -
  let ?thyme = "\<lparr>ingredient_id = 3, ingredient_name = ''Thyme'', qty_oz_per_unit = 1,
       total_qty_needed = 2\<rparr>"
  let ?oil = "\<lparr>ingredient_id = 3, ingredient_name = ''Oil'', qty_oz_per_unit = 11 / 10,
       total_qty_needed = 11 / 10\<rparr>"
  let ?rye = "\<lparr>ingredient_id = 4, ingredient_name = ''Rye'', qty_oz_per_unit = 1,
       total_qty_needed = 1\<rparr>"
  let ?rows = "[\<lparr>sc_session_token = ''tok'', sc_ingredient_batch_id = 9105, sc_qty_oz = 1\<rparr>,
         \<lparr>sc_session_token = ''tok'', sc_ingredient_batch_id = 9106,
          sc_qty_oz = 3602879701896397 / 36028797018963968\<rparr>,
         \<lparr>sc_session_token = ''tok'', sc_ingredient_batch_id = 9107,
          sc_qty_oz = 3 / 36028797018963968\<rparr>]"
  have items12: "recipe_items plant ''12'' 2 = [] @ ?thyme # []"
    by (simp add: recipe_items_def plant_def)
  have items23: "recipe_items pantry ''23'' 1 = [?oil] @ ?rye # []"
    by (simp add: recipe_items_def pantry_def)
  have gone12: "\<forall>ib\<in>set (t_ingredient_batch plant).
       ib_ingredient_id ib = ingredient_id ?thyme \<longrightarrow>
       ib_on_hand_oz ib \<le> 0 \<or> ib_expiration_date ib < 100"
    by (simp add: plant_def)
  have gone23: "\<forall>ib\<in>set (t_ingredient_batch pantry).
       ib_ingredient_id ib = ingredient_id ?rye \<longrightarrow>
       ib_on_hand_oz ib \<le> 0 \<or> ib_expiration_date ib < 100"
    by (simp add: pantry_def)
  have pre12: "fefo_items plant 100 ''tok'' [] (t_staging_consumption plant) 0 =
      (Inr 0, t_staging_consumption plant)"
    by simp
  have pre23: "fefo_items pantry 100 ''tok'' [?oil] (t_staging_consumption pantry) 0 = (Inr 3, ?rows)"
    by (simp add: fefo_eval pantry_def)
  have in12: "?thyme \<in> set (recipe_items plant ''12'' 2)" unfolding items12 by simp
  have in23: "?rye \<in> set (recipe_items pantry ''23'' 1)" unfolding items23 by simp
  have "auto_select_lots_fefo plant 100 ''12'' 2 ''tok'' =
      (case all_batches plant 100 (ingredient_id ?thyme) of
         (total_count, with_stock, expired) \<Rightarrow>
           if 0 < total_count
           then (Inl (NoAvailableLots (ingredient_name ?thyme) total_count with_stock expired),
                 plant\<lparr>t_staging_consumption := t_staging_consumption plant\<rparr>)
           else (Inl (NoBatchesExist (ingredient_name ?thyme)),
                 plant\<lparr>t_staging_consumption := t_staging_consumption plant\<rparr>))"
    using no_eligible_lot_fails [where db = plant and rp = "''12''" and units = 2
        and tok = "''tok''" and today = 100] in12 gone12 items12 pre12
    by blast
  then have a: "auto_select_lots_fefo plant 100 ''12'' 2 ''tok'' =
     (Inl (NoAvailableLots ''Thyme'' 1 1 1), plant)"
    by (simp add: all_batches_def plant_def)
  have "auto_select_lots_fefo pantry 100 ''23'' 1 ''tok'' =
      (case all_batches pantry 100 (ingredient_id ?rye) of
         (total_count, with_stock, expired) \<Rightarrow>
           if 0 < total_count
           then (Inl (NoAvailableLots (ingredient_name ?rye) total_count with_stock expired),
                 pantry\<lparr>t_staging_consumption := ?rows\<rparr>)
           else (Inl (NoBatchesExist (ingredient_name ?rye)),
                 pantry\<lparr>t_staging_consumption := ?rows\<rparr>))"
    using no_eligible_lot_fails [where db = pantry and rp = "''23''" and units = 1
        and tok = "''tok''" and today = 100] in23 gone23 items23 pre23
    by blast
  then have b: "auto_select_lots_fefo pantry 100 ''23'' 1 ''tok'' =
     (Inl (NoAvailableLots ''Rye'' 1 0 0), pantry\<lparr>t_staging_consumption := ?rows\<rparr>)"
    by (simp add: all_batches_def pantry_def)
  show ?thesis using a b by (rule conjI)
qed




lemma recipe_items_total:
  "item \<in> set (recipe_items db rp units) \<Longrightarrow>
     total_qty_needed item = qty_oz_per_unit item * of_int units"
  by (auto simp: recipe_items_def split: if_splits)






text \<open>
  C2. The claim asks that no staging row remains under the session token after any
  failure. The two early returns of the loop body (no available lots, insufficient
  total) do not delete anything, while the return after the inner loop and the
  exception handler do: with plan 11 the rows staged for beef stay under the token
  when salt falls short, and \<open>create_product_batch\<close> returns on the failure without
  cleaning up either.
\<close>

theorem staging_left_after_failure:
  "auto_select_lots_fefo plant 100 ''11'' 2 ''tok'' =
     (Inl (InsufficientTotal ''Salt'' 1 1 (1 / 4) (3 / 4)),
      plant\<lparr>t_staging_consumption :=
        [\<lparr>sc_session_token = ''other'', sc_ingredient_batch_id = 9002, sc_qty_oz = 1\<rparr>,
         \<lparr>sc_session_token = ''tok'', sc_ingredient_batch_id = 9001, sc_qty_oz = 4\<rparr>,
         \<lparr>sc_session_token = ''tok'', sc_ingredient_batch_id = 9002, sc_qty_oz = 6\<rparr>]\<rparr>) \<and>
   create_product_batch sp_returns 100 ''tok'' (Some ''MFG001'')
       (answers ''11'' ''2'' ''1'' ''y'') plant =
     (FefoFailed (InsufficientTotal ''Salt'' 1 1 (1 / 4) (3 / 4)),
      plant\<lparr>t_staging_consumption :=
        [\<lparr>sc_session_token = ''other'', sc_ingredient_batch_id = 9002, sc_qty_oz = 1\<rparr>,
         \<lparr>sc_session_token = ''tok'', sc_ingredient_batch_id = 9001, sc_qty_oz = 4\<rparr>,
         \<lparr>sc_session_token = ''tok'', sc_ingredient_batch_id = 9002, sc_qty_oz = 6\<rparr>]\<rparr>)"
proof -
  have a: "auto_select_lots_fefo plant 100 ''11'' 2 ''tok'' =
     (Inl (InsufficientTotal ''Salt'' 1 1 (1 / 4) (3 / 4)),
      plant\<lparr>t_staging_consumption :=
        [\<lparr>sc_session_token = ''other'', sc_ingredient_batch_id = 9002, sc_qty_oz = 1\<rparr>,
         \<lparr>sc_session_token = ''tok'', sc_ingredient_batch_id = 9001, sc_qty_oz = 4\<rparr>,
         \<lparr>sc_session_token = ''tok'', sc_ingredient_batch_id = 9002, sc_qty_oz = 6\<rparr>]\<rparr>)"
    by (simp add: fefo_eval plant_def)
  have gates: "active_recipes plant ''MFG001'' \<noteq> []" "recipe_check plant ''11'' ''MFG001'' \<noteq> []"
    by (simp_all add: active_recipes_def recipe_check_def plant_def)
  have typed: "strip ''11'' = ''11''" "strip ''2'' = ''2''" "strip ''1'' = ''1''"
    "py_int ''2'' = Some 2"
    by (simp_all add: strip_def is_space_def py_int_def int_unsigned_def is_digit_def
          digit_val_def)
  have b: "create_product_batch sp_returns 100 ''tok'' (Some ''MFG001'')
       (answers ''11'' ''2'' ''1'' ''y'') plant =
     (FefoFailed (InsufficientTotal ''Salt'' 1 1 (1 / 4) (3 / 4)),
      plant\<lparr>t_staging_consumption :=
        [\<lparr>sc_session_token = ''other'', sc_ingredient_batch_id = 9002, sc_qty_oz = 1\<rparr>,
         \<lparr>sc_session_token = ''tok'', sc_ingredient_batch_id = 9001, sc_qty_oz = 4\<rparr>,
         \<lparr>sc_session_token = ''tok'', sc_ingredient_batch_id = 9002, sc_qty_oz = 6\<rparr>]\<rparr>)"
    using gates by (simp add: create_product_batch_def answers_def typed a Let_def)
  show ?thesis using a b by (rule conjI)
qed

section \<open>Claims about \<open>create_product_batch\<close>\<close>

lemma typed_answers:
  "strip ''10'' = ''10''" "strip ''11'' = ''11''" "strip ''1'' = ''1''" "strip ''2'' = ''2''"
  "strip ''0'' = ''0''" "strip ''y'' = ''y''" "strip ''n'' = ''n''" "strip ''N'' = ''N''"
  "strip ''2.5'' = ''2.5''"
  "py_int ''2'' = Some 2" "py_int ''0'' = Some 0" "py_int ''2.5'' = None"
  "lower ''y'' = ''y''" "lower ''n'' = ''n''" "lower ''N'' = ''n''"
  by (simp_all add: strip_def is_space_def py_int_def int_unsigned_def is_digit_def
        digit_val_def lower_def)

lemma plant_gates:
  "active_recipes plant ''MFG001'' \<noteq> []"
  "recipe_check plant ''10'' ''MFG001'' \<noteq> []"
  "recipe_check plant ''11'' ''MFG001'' \<noteq> []"
  "product_type_result plant ''10'' = [100]"
  "current_staging plant =
     [\<lparr>sc_session_token = ''other'', sc_ingredient_batch_id = 9002, sc_qty_oz = 1\<rparr>]"
  by (simp_all add: active_recipes_def recipe_check_def product_type_result_def
        current_staging_def plant_def)


lemma record_product_batch_outcome:
  "fst (record_product_batch sp session_token rid units mfg_id confirm db)
     \<in> {NoProductType, Cancelled, BatchCreated, BatchError}"
  by (auto simp: record_product_batch_def Let_def split: list.splits if_splits option.splits)







lemma recipe_check_product_type:
  "recipe_check db rid mfg_id \<noteq> [] \<Longrightarrow> product_type_result db rid \<noteq> []"
proof -
  assume "recipe_check db rid mfg_id \<noteq> []"
  then obtain rp where "rp \<in> set (recipe_check db rid mfg_id)"
    by (cases "recipe_check db rid mfg_id") auto
  then have "rp \<in> set (t_recipe_plan db) \<and> rp_recipe_plan_id rp = rid"
    by (auto simp: recipe_check_def split: if_splits)
  then have "rp_product_type_id rp \<in> set (product_type_result db rid)"
    by (auto simp: product_type_result_def)
  then show ?thesis by auto
qed

text \<open>
  C7. In the legacy mode (choice 2, confirmed) the function has no session token and
  calls the stored procedure with the empty token, on tables it has not changed. By the
  specification of the commit, the empty token stands for all currently staged
  allocations: the rows the commit takes are all the rows of the staging table,
  whatever session token they carry.
\<close>

theorem legacy_commit_unscoped:
  assumes "manufacturer_id = Some mfg_id" and "mfg_id \<noteq> []"
    and "active_recipes db mfg_id \<noteq> []"
    and "strip (in_recipe_plan_id inp) \<noteq> []"
    and "recipe_check db (strip (in_recipe_plan_id inp)) mfg_id \<noteq> []"
    and "strip (in_batch_units inp) \<noteq> []"
    and "py_int (strip (in_batch_units inp)) = Some units"
    and "strip (in_selection_choice inp) = ''2''"
    and "current_staging db \<noteq> [] \<or> lower (strip (in_proceed inp)) = ''y''"
    and "lower (strip (in_confirm inp)) = ''y''"
  shows "create_product_batch sp today uuid4 manufacturer_id inp db =
           (case sp \<lparr>p_session_token = [],
                      p_product_type_id = hd (product_type_result db (strip (in_recipe_plan_id inp))),
                      p_recipe_plan_id = strip (in_recipe_plan_id inp),
                      p_produced_units = units,
                      p_manufacturer_id = mfg_id\<rparr> db of
              Some db' \<Rightarrow> (BatchCreated, db')
            | None \<Rightarrow> (BatchError, db)) \<and>
         sp_staged_rows [] db = t_staging_consumption db \<and>
         (\<forall>sc\<in>set (t_staging_consumption db). sc \<in> set (sp_staged_rows [] db))"
proof -
  let ?rid = "strip (in_recipe_plan_id inp)"
  obtain ptid rest where pt: "product_type_result db ?rid = ptid # rest"
    using recipe_check_product_type [OF assms(5)]
    by (cases "product_type_result db ?rid") auto
  have two: "''2'' \<noteq> ''1''" by simp
  have rec: "record_product_batch sp None ?rid units mfg_id (in_confirm inp) db =
      (case sp \<lparr>p_session_token = [], p_product_type_id = ptid, p_recipe_plan_id = ?rid,
                 p_produced_units = units, p_manufacturer_id = mfg_id\<rparr> db of
              Some db' \<Rightarrow> (BatchCreated, db')
            | None \<Rightarrow> (BatchError, db))"
    using assms(10) pt
    by (simp add: record_product_batch_def truthy_def cleanup_staging_def Let_def
          split: option.splits)
  have "create_product_batch sp today uuid4 manufacturer_id inp db =
      record_product_batch sp None ?rid units mfg_id (in_confirm inp) db"
    using assms(1-9) two
    by (auto simp: create_product_batch_def Let_def)
  then have a: "create_product_batch sp today uuid4 manufacturer_id inp db =
           (case sp \<lparr>p_session_token = [],
                      p_product_type_id = hd (product_type_result db ?rid),
                      p_recipe_plan_id = ?rid,
                      p_produced_units = units,
                      p_manufacturer_id = mfg_id\<rparr> db of
              Some db' \<Rightarrow> (BatchCreated, db')
            | None \<Rightarrow> (BatchError, db))"
    using rec pt by simp
  have b: "sp_staged_rows [] db = t_staging_consumption db"
    by (simp add: sp_staged_rows_def)
  show ?thesis using a b by simp
qed

theorem legacy_commit_unscoped_witness:
  "create_product_batch sp_if_unscoped 100 ''tok'' (Some ''MFG001'')
       (answers ''10'' ''2'' ''2'' ''y'') plant = (BatchCreated, plant) \<and>
   sp_staged_rows [] plant =
     [\<lparr>sc_session_token = ''other'', sc_ingredient_batch_id = 9002, sc_qty_oz = 1\<rparr>] \<and>
   sp_staged_rows ''tok'' plant = []"
proof -
  let ?inp = "answers ''10'' ''2'' ''2'' ''y''"
  have h: "Some ''MFG001'' = Some ''MFG001''" "''MFG001'' \<noteq> []"
    "active_recipes plant ''MFG001'' \<noteq> []"
    "strip (in_recipe_plan_id ?inp) \<noteq> []"
    "recipe_check plant (strip (in_recipe_plan_id ?inp)) ''MFG001'' \<noteq> []"
    "strip (in_batch_units ?inp) \<noteq> []"
    "py_int (strip (in_batch_units ?inp)) = Some 2"
    "strip (in_selection_choice ?inp) = ''2''"
    "current_staging plant \<noteq> [] \<or> lower (strip (in_proceed ?inp)) = ''y''"
    "lower (strip (in_confirm ?inp)) = ''y''"
    by (simp_all add: answers_def typed_answers plant_gates)
  have "create_product_batch sp_if_unscoped 100 ''tok'' (Some ''MFG001'') ?inp plant =
           (case sp_if_unscoped \<lparr>p_session_token = [],
                      p_product_type_id = hd (product_type_result plant (strip (in_recipe_plan_id ?inp))),
                      p_recipe_plan_id = strip (in_recipe_plan_id ?inp),
                      p_produced_units = 2,
                      p_manufacturer_id = ''MFG001''\<rparr> plant of
              Some db' \<Rightarrow> (BatchCreated, db')
            | None \<Rightarrow> (BatchError, plant))"
    using legacy_commit_unscoped [OF h, of sp_if_unscoped 100 "''tok''"] by (rule conjunct1)
  then have a: "create_product_batch sp_if_unscoped 100 ''tok'' (Some ''MFG001'') ?inp plant =
      (BatchCreated, plant)"
    by (simp add: sp_if_unscoped_def)
  have b: "sp_staged_rows [] plant =
     [\<lparr>sc_session_token = ''other'', sc_ingredient_batch_id = 9002, sc_qty_oz = 1\<rparr>]"
    "sp_staged_rows ''tok'' plant = []"
    by (simp_all add: sp_staged_rows_def plant_def)
  show ?thesis using a b by (intro conjI)
qed

lemma fefo_items_nothing_needed:
  assumes "\<forall>item\<in>set items. total_qty_needed item \<le> 0"
  shows "snd (fefo_items db today tok items st n) = st \<and>
         ((\<forall>item\<in>set items. available_batches db today (ingredient_id item) \<noteq> []) \<longrightarrow>
          fst (fefo_items db today tok items st n) = Inr n)"
  using assms
proof (induction items arbitrary: st n)
  case Nil
  show ?case by simp
next
  case (Cons item items)
  let ?av = "available_batches db today (ingredient_id item)"
  have need: "float64 (total_qty_needed item) \<le> 0"
    using Cons.prems by simp
  show ?case
  proof (cases rule: fefo_items_cases [of db today item _ tok])
    case no_lots
    then show ?thesis
      by (simp add: fefo_items_no_lots split: prod.splits)
  next
    case short
    have "0 < total_available ?av"
      using short(1) available_batches_pos by (rule total_available_pos)
    then have False using short(2) need by simp
    then show ?thesis ..
  next
    case leftover
    have "qty_left tok ?av (float64 (total_qty_needed item)) = float64 (total_qty_needed item)"
      using need by (rule qty_left_nonpos)
    then have False using leftover(3) need by simp
    then show ?thesis ..
  next
    case step
    have "staged_rows tok ?av (float64 (total_qty_needed item)) = []"
      using need by (rule staged_rows_nonpos)
    then have "fefo_items db today tok (item # items) st n = fefo_items db today tok items st n"
      unfolding fefo_items_step [OF step] by simp
    then show ?thesis
      using Cons.IH [of st n] Cons.prems by simp
  qed
qed

lemma recipe_items_line:
  "item \<in> set (recipe_items db rp units) \<Longrightarrow>
     \<exists>rpi\<in>set (t_recipe_plan_item db). qty_oz_per_unit item = rpi_qty_oz_per_unit rpi"
  by (auto simp: recipe_items_def split: if_splits)

lemma same_staging [simp]: "db\<lparr>t_staging_consumption := t_staging_consumption db\<rparr> = db"
  by simp

text \<open>
  C6, as the claim states it, fails: zero units are accepted. \<open>int\<close> reads the entry
  \<open>0\<close>, the selection finds a lot for the one ingredient of plan 10, needs nothing and
  succeeds with no lot selected, and after the confirmation the stored procedure is
  called with zero units.
\<close>

theorem zero_units_counterexample:
  "auto_select_lots_fefo plant 100 ''10'' 0 ''tok'' = (Inr 0, plant) \<and>
   create_product_batch sp_returns 100 ''tok'' (Some ''MFG001'')
       (answers ''10'' ''0'' ''1'' ''y'') plant = (BatchCreated, plant)"
proof -
  have a: "auto_select_lots_fefo plant 100 ''10'' 0 ''tok'' = (Inr 0, plant)"
    by (simp add: fefo_eval plant_def)
  have "create_product_batch sp_returns 100 ''tok'' (Some ''MFG001'')
       (answers ''10'' ''0'' ''1'' ''y'') plant = (BatchCreated, plant)"
    by (simp add: create_product_batch_def answers_def typed_answers Let_def a
          record_product_batch_def plant_gates sp_returns_def)
  with a show ?thesis by (rule conjI)
qed

lemma record_product_batch_valid:
  "fst (record_product_batch sp session_token rid units mfg_id confirm db) \<noteq> InvalidQuantity"
  using record_product_batch_outcome [of sp session_token rid units mfg_id confirm db]
  by auto

lemma create_invalid_quantity:
  assumes "fst (create_product_batch sp today uuid4 mfg inp db) = InvalidQuantity"
  shows "py_int (strip (in_batch_units inp)) = None \<and>
         snd (create_product_batch sp today uuid4 mfg inp db) = db"
  using assms record_product_batch_valid
  unfolding create_product_batch_def Let_def
  by (auto split: option.splits if_splits prod.splits sum.splits)

text \<open>
  C6, amended. A recipe with no ingredient line fails with "No ingredients found in
  recipe plan" before any lot is staged, and an entry for the units that \<open>int\<close> does not
  read fails with "Invalid quantity" before the selection starts; that message is given
  for no other entry. A zero or negative number of units is not rejected: with
  quantities per unit that are not negative the selection runs, stages no lot, and
  succeeds with zero lots selected when every ingredient of the recipe has an eligible
  lot.
\<close>

theorem quantity_and_recipe_checks:
  "(recipe_items db rp units = [] \<longrightarrow>
      auto_select_lots_fefo db today rp units tok = (Inl NoIngredientsFound, db)) \<and>
   (units \<le> 0 \<and> (\<forall>rpi\<in>set (t_recipe_plan_item db). 0 \<le> rpi_qty_oz_per_unit rpi) \<longrightarrow>
      snd (auto_select_lots_fefo db today rp units tok) = db \<and>
      (recipe_items db rp units \<noteq> [] \<and>
       (\<forall>item\<in>set (recipe_items db rp units).
          available_batches db today (ingredient_id item) \<noteq> []) \<longrightarrow>
       fst (auto_select_lots_fefo db today rp units tok) = Inr 0)) \<and>
   (fst (create_product_batch sp today uuid4 mfg inp db) = InvalidQuantity \<longrightarrow>
      py_int (strip (in_batch_units inp)) = None \<and>
      snd (create_product_batch sp today uuid4 mfg inp db) = db) \<and>
   (\<forall>mfg_id. mfg = Some mfg_id \<and> mfg_id \<noteq> [] \<and> active_recipes db mfg_id \<noteq> [] \<and>
      strip (in_recipe_plan_id inp) \<noteq> [] \<and>
      recipe_check db (strip (in_recipe_plan_id inp)) mfg_id \<noteq> [] \<and>
      strip (in_batch_units inp) \<noteq> [] \<and> py_int (strip (in_batch_units inp)) = None \<longrightarrow>
      create_product_batch sp today uuid4 mfg inp db = (InvalidQuantity, db))"
proof -
  let ?items = "recipe_items db rp units"
  have one: "auto_select_lots_fefo db today rp units tok = (Inl NoIngredientsFound, db)"
    if "?items = []"
    using that by (simp add: auto_select_lots_fefo_def)
  have two: "snd (auto_select_lots_fefo db today rp units tok) = db \<and>
      (?items \<noteq> [] \<and>
       (\<forall>item\<in>set ?items. available_batches db today (ingredient_id item) \<noteq> []) \<longrightarrow>
       fst (auto_select_lots_fefo db today rp units tok) = Inr 0)"
    if u: "units \<le> 0" and q: "\<forall>rpi\<in>set (t_recipe_plan_item db). 0 \<le> rpi_qty_oz_per_unit rpi"
  proof -
    have np: "\<forall>item\<in>set ?items. total_qty_needed item \<le> 0"
    proof
      fix item assume i: "item \<in> set ?items"
      then have "0 \<le> qty_oz_per_unit item"
        using recipe_items_line [OF i] q by auto
      moreover have "(of_int units :: rat) \<le> 0" using u by simp
      ultimately have "qty_oz_per_unit item * of_int units \<le> 0"
        by (rule mult_nonneg_nonpos)
      then show "total_qty_needed item \<le> 0"
        using recipe_items_total [OF i] by simp
    qed
    note run = fefo_items_nothing_needed [OF np, of db today tok "t_staging_consumption db" 0]
    show ?thesis
    proof (cases "?items = []")
      case True
      then show ?thesis using one by simp
    next
      case False
      obtain r st' where res:
        "fefo_items db today tok ?items (t_staging_consumption db) 0 = (r, st')"
        by (cases "fefo_items db today tok ?items (t_staging_consumption db) 0")
      have st': "st' = t_staging_consumption db"
        using run res by simp
      have r: "r = Inr 0"
        if "\<forall>item\<in>set ?items. available_batches db today (ingredient_id item) \<noteq> []"
        using run res that by simp
      have "auto_select_lots_fefo db today rp units tok = (r, db)"
        using False res st' by (simp add: auto_select_lots_fefo_def Let_def)
      then show ?thesis using r by simp
    qed
  qed
  have three: "py_int (strip (in_batch_units inp)) = None \<and>
      snd (create_product_batch sp today uuid4 mfg inp db) = db"
    if "fst (create_product_batch sp today uuid4 mfg inp db) = InvalidQuantity"
    using that by (rule create_invalid_quantity)
  have four: "create_product_batch sp today uuid4 mfg inp db = (InvalidQuantity, db)"
    if "mfg = Some mfg_id \<and> mfg_id \<noteq> [] \<and> active_recipes db mfg_id \<noteq> [] \<and>
      strip (in_recipe_plan_id inp) \<noteq> [] \<and>
      recipe_check db (strip (in_recipe_plan_id inp)) mfg_id \<noteq> [] \<and>
      strip (in_batch_units inp) \<noteq> [] \<and> py_int (strip (in_batch_units inp)) = None"
    for mfg_id
    using that by (simp add: create_product_batch_def Let_def)
  show ?thesis
    using one two three four by blast
qed

theorem quantity_and_recipe_checks_witness:
  "auto_select_lots_fefo plant 100 ''99'' 2 ''tok'' = (Inl NoIngredientsFound, plant) \<and>
   auto_select_lots_fefo plant 100 ''10'' 0 ''tok'' = (Inr 0, plant) \<and>
   create_product_batch sp_returns 100 ''tok'' (Some ''MFG001'')
       (answers ''10'' ''2.5'' ''1'' ''y'') plant = (InvalidQuantity, plant)"
proof -
  let ?inp = "answers ''10'' ''2.5'' ''1'' ''y''"
  note inst = quantity_and_recipe_checks [of plant _ _ 100 "''tok''" sp_returns "''tok''"
      "Some ''MFG001''" ?inp]
  have none: "recipe_items plant ''99'' 2 = []"
    by (simp add: recipe_items_def plant_def)
  have a: "auto_select_lots_fefo plant 100 ''99'' 2 ''tok'' = (Inl NoIngredientsFound, plant)"
    using inst [of "''99''" 2] none by blast
  have items: "recipe_items plant ''10'' 0 =
      [\<lparr>ingredient_id = 1, ingredient_name = ''Beef'', qty_oz_per_unit = 5,
        total_qty_needed = 0\<rparr>]"
    by (simp add: recipe_items_def plant_def)
  have lots: "available_batches plant 100 1 \<noteq> []"
    by (simp add: available_batches_def plant_def fefo_key_def)
  have h: "(0::int) \<le> 0" "\<forall>rpi\<in>set (t_recipe_plan_item plant). 0 \<le> rpi_qty_oz_per_unit rpi"
    "recipe_items plant ''10'' 0 \<noteq> []"
    "\<forall>item\<in>set (recipe_items plant ''10'' 0). available_batches plant 100 (ingredient_id item) \<noteq> []"
    using lots by (simp_all add: items) (simp add: plant_def)
  have "snd (auto_select_lots_fefo plant 100 ''10'' 0 ''tok'') = plant \<and>
        fst (auto_select_lots_fefo plant 100 ''10'' 0 ''tok'') = Inr 0"
    using inst [of "''10''" 0] h by blast
  then have b: "auto_select_lots_fefo plant 100 ''10'' 0 ''tok'' = (Inr 0, plant)"
    by (metis prod.collapse)
  have g: "Some ''MFG001'' = Some ''MFG001'' \<and> ''MFG001'' \<noteq> [] \<and>
      active_recipes plant ''MFG001'' \<noteq> [] \<and>
      strip (in_recipe_plan_id ?inp) \<noteq> [] \<and>
      recipe_check plant (strip (in_recipe_plan_id ?inp)) ''MFG001'' \<noteq> [] \<and>
      strip (in_batch_units ?inp) \<noteq> [] \<and> py_int (strip (in_batch_units ?inp)) = None"
    by (simp add: answers_def typed_answers plant_gates)
  have c: "create_product_batch sp_returns 100 ''tok'' (Some ''MFG001'') ?inp plant =
      (InvalidQuantity, plant)"
    using inst [of "''10''" 0] g by blast
  show ?thesis using a b c by (intro conjI)
qed

section \<open>Claims about \<open>trace_product_recall\<close>\<close>

lemma digit_val_nonneg: "is_digit c \<Longrightarrow> 0 \<le> digit_val c"
  by (auto simp: is_digit_def digit_val_def)

lemma digit_not_space: "is_digit c \<Longrightarrow> \<not> is_space c"
  by (auto simp: is_digit_def is_space_def)

lemma int_digits_digits:
  "list_all is_digit ds \<Longrightarrow> 0 \<le> acc \<Longrightarrow> \<exists>v. int_digits acc ds = Some v \<and> 0 \<le> v"
proof (induction acc ds rule: int_digits.induct)
  case (1 acc)
  then show ?case by simp
next
  case (2 acc c)
  then show ?case using digit_val_nonneg [of c] by simp
next
  case (3 acc c d cs)
  have "0 \<le> 10 * acc + digit_val c"
    using 3(4) digit_val_nonneg [of c] 3(3) by simp
  then show ?case using 3 by simp
qed

lemma int_unsigned_digits:
  "ds \<noteq> [] \<Longrightarrow> list_all is_digit ds \<Longrightarrow> \<exists>v. int_unsigned ds = Some v \<and> 0 \<le> v"
proof (cases ds)
  case Nil
  assume "ds \<noteq> []"
  with Nil show ?thesis by simp
next
  case (Cons c cs)
  assume "list_all is_digit ds"
  then have c: "is_digit c" and cs: "list_all is_digit cs" using Cons by simp_all
  have "0 \<le> digit_val c" using c by (rule digit_val_nonneg)
  with cs obtain v where "int_digits (digit_val c) cs = Some v" "0 \<le> v"
    using int_digits_digits by blast
  then show ?thesis using Cons c by (simp add: int_unsigned_def)
qed

lemma strip_clean:
  assumes "s \<noteq> []" "\<not> is_space (hd s)" "\<not> is_space (last s)"
  shows "strip s = s"
proof -
  have "dropWhile is_space s = s"
    using assms(1,2) by (cases s) simp_all
  moreover have "dropWhile is_space (rev s) = rev s"
    using assms(1,3) by (cases "rev s") (simp_all add: last_rev [symmetric] hd_rev)
  ultimately show ?thesis by (simp add: strip_def)
qed

lemma strip_minus_digits:
  assumes "ds \<noteq> []" "list_all is_digit ds"
  shows "strip (CHR ''-'' # ds) = CHR ''-'' # ds"
proof (rule strip_clean)
  show "CHR ''-'' # ds \<noteq> []" by simp
  show "\<not> is_space (hd (CHR ''-'' # ds))" by (simp add: is_space_def)
  have "last ds \<in> set ds" using assms(1) by simp
  then have "is_digit (last ds)" using assms(2) by (simp add: list_all_iff)
  then show "\<not> is_space (last (CHR ''-'' # ds))"
    using assms(1) digit_not_space by simp
qed

lemma minus_digits_window:
  assumes "ds \<noteq> []" "list_all is_digit ds"
  shows "\<exists>v. 0 \<le> v \<and> py_int (CHR ''-'' # ds) = Some (- v) \<and> days_window_of (CHR ''-'' # ds) = - v"
proof -
  obtain v where v: "int_unsigned ds = Some v" "0 \<le> v"
    using int_unsigned_digits [OF assms] by blast
  have s: "strip (CHR ''-'' # ds) = CHR ''-'' # ds"
    using assms by (rule strip_minus_digits)
  have p: "py_int (CHR ''-'' # ds) = Some (- v)"
    using v(1) by (simp add: py_int_def s)
  have "days_window_of (CHR ''-'' # ds) = - v"
    using p by (simp add: days_window_of_def s Let_def)
  with v(2) p show ?thesis by blast
qed

lemma window_of_call:
  "trace_product_recall c t d = CallTraceRecall i l w \<Longrightarrow> w = days_window_of d"
  by (auto simp: trace_product_recall_def Let_def split: if_splits option.splits)

lemma window_default:
  assumes "strip d = [] \<or> py_int (strip d) = None"
  shows "days_window_of d = 20"
  using assms
proof
  assume "strip d = []"
  then show ?thesis by (simp add: days_window_of_def)
next
  assume "py_int (strip d) = None"
  then show ?thesis by (simp add: days_window_of_def Let_def)
qed

lemma window_entered:
  assumes "strip d \<noteq> [] \<and> py_int (strip d) = Some k"
  shows "days_window_of d = k"
proof -
  from assms have a: "strip d \<noteq> []" and b: "py_int (strip d) = Some k" by simp_all
  show ?thesis unfolding days_window_of_def Let_def using a b by simp
qed

lemma trace_by_lot:
  assumes "strip c = ''2''" "strip t \<noteq> []"
  shows "trace_product_recall c t d = CallTraceRecall None (Some (strip t)) (days_window_of d)"
  unfolding trace_product_recall_def Let_def assms(1) using assms(2) by simp

lemma strip_two: "strip ''2'' = ''2''"
  by (simp add: strip_def is_space_def)

text \<open>
  C8, as the claim states it, fails: the entry \<open>-5\<close> is read by \<open>int\<close> and passed to
  \<open>sp_trace_recall\<close> as the window.
\<close>

theorem negative_window_counterexample:
  "trace_product_recall ''2'' ''L100'' ''-5'' = CallTraceRecall None (Some ''L100'') (- 5)"
  by (simp add: trace_product_recall_def days_window_of_def strip_def is_space_def py_int_def
        int_unsigned_def is_digit_def digit_val_def Let_def)

text \<open>
  C8, amended. The window passed to \<open>sp_trace_recall\<close> is 20 when the entry is blank
  or is not an integer, and otherwise the integer entered, whatever its sign: an entry
  of a minus sign and decimal digits is read as an integer that is not positive and is
  passed on as the window.
\<close>

theorem recall_window:
  "(strip c = ''2'' \<and> strip t \<noteq> [] \<longrightarrow>
      (strip d = [] \<or> py_int (strip d) = None \<longrightarrow>
         trace_product_recall c t d = CallTraceRecall None (Some (strip t)) 20) \<and>
      (\<forall>k. strip d \<noteq> [] \<and> py_int (strip d) = Some k \<longrightarrow>
         trace_product_recall c t d = CallTraceRecall None (Some (strip t)) k)) \<and>
   (trace_product_recall c t d = CallTraceRecall i l w \<longrightarrow>
      (strip d = [] \<or> py_int (strip d) = None \<longrightarrow> w = 20) \<and>
      (\<forall>k. strip d \<noteq> [] \<and> py_int (strip d) = Some k \<longrightarrow> w = k)) \<and>
   (\<forall>ds. ds \<noteq> [] \<and> list_all is_digit ds \<longrightarrow>
      (\<exists>v\<ge>0. py_int (CHR ''-'' # ds) = Some (- v) \<and>
         (\<forall>lot. strip lot \<noteq> [] \<longrightarrow>
            trace_product_recall ''2'' lot (CHR ''-'' # ds) =
              CallTraceRecall None (Some (strip lot)) (- v))))"
proof -
  have one: "(strip d = [] \<or> py_int (strip d) = None \<longrightarrow>
         trace_product_recall c t d = CallTraceRecall None (Some (strip t)) 20) \<and>
      (\<forall>k. strip d \<noteq> [] \<and> py_int (strip d) = Some k \<longrightarrow>
         trace_product_recall c t d = CallTraceRecall None (Some (strip t)) k)"
    if "strip c = ''2'' \<and> strip t \<noteq> []"
  proof -
    from that have a: "strip c = ''2''" and b: "strip t \<noteq> []" by simp_all
    note call = trace_by_lot [OF a b, of d]
    have x: "trace_product_recall c t d = CallTraceRecall None (Some (strip t)) 20"
      if "strip d = [] \<or> py_int (strip d) = None"
      unfolding call window_default [OF that] ..
    have y: "trace_product_recall c t d = CallTraceRecall None (Some (strip t)) k"
      if "strip d \<noteq> [] \<and> py_int (strip d) = Some k" for k
      unfolding call window_entered [OF that] ..
    show ?thesis using x y by blast
  qed
  have two: "(strip d = [] \<or> py_int (strip d) = None \<longrightarrow> w = 20) \<and>
      (\<forall>k. strip d \<noteq> [] \<and> py_int (strip d) = Some k \<longrightarrow> w = k)"
    if "trace_product_recall c t d = CallTraceRecall i l w"
  proof -
    have w: "w = days_window_of d" using that by (rule window_of_call)
    have x: "w = 20" if "strip d = [] \<or> py_int (strip d) = None"
      unfolding w using that by (rule window_default)
    have y: "w = k" if "strip d \<noteq> [] \<and> py_int (strip d) = Some k" for k
      unfolding w using that by (rule window_entered)
    show ?thesis using x y by blast
  qed
  have three: "\<exists>v\<ge>0. py_int (CHR ''-'' # ds) = Some (- v) \<and>
         (\<forall>lot. strip lot \<noteq> [] \<longrightarrow>
            trace_product_recall ''2'' lot (CHR ''-'' # ds) =
              CallTraceRecall None (Some (strip lot)) (- v))"
    if "ds \<noteq> [] \<and> list_all is_digit ds" for ds
  proof -
    from that have a: "ds \<noteq> []" and b: "list_all is_digit ds" by simp_all
    obtain v where v: "0 \<le> v" "py_int (CHR ''-'' # ds) = Some (- v)"
      "days_window_of (CHR ''-'' # ds) = - v"
      using minus_digits_window [OF a b] by blast
    have call: "trace_product_recall ''2'' lot (CHR ''-'' # ds) =
         CallTraceRecall None (Some (strip lot)) (- v)" if "strip lot \<noteq> []" for lot
      using trace_by_lot [OF strip_two that, of "CHR ''-'' # ds"] unfolding v(3) .
    show ?thesis
      by (rule exI [of _ v]) (use v(1,2) call in blast)
  qed
  show ?thesis
    using one two three by blast
qed

theorem recall_window_witness:
  "trace_product_recall ''2'' ''L100'' '' '' = CallTraceRecall None (Some ''L100'') 20 \<and>
   trace_product_recall ''2'' ''L100'' ''abc'' = CallTraceRecall None (Some ''L100'') 20 \<and>
   trace_product_recall ''2'' ''L100'' ''30'' = CallTraceRecall None (Some ''L100'') 30 \<and>
   trace_product_recall ''1'' ''7'' [] = CallTraceRecall (Some 7) None 20 \<and>
   (\<exists>v\<ge>0. trace_product_recall ''2'' ''L100'' ''-30'' = CallTraceRecall None (Some ''L100'') (- v))"
proof -
  note w3 = recall_window [THEN conjunct2, THEN conjunct1, THEN mp, THEN conjunct1, THEN mp]
  note w1 = recall_window [THEN conjunct1, THEN mp, THEN conjunct1, THEN mp]
  note w2 = recall_window [THEN conjunct1, THEN mp, THEN conjunct2, THEN spec, THEN mp]
  note w4 = recall_window [THEN conjunct2, THEN conjunct2, THEN spec, THEN mp]
  have e5: "strip ''L100'' = ''L100''"
    by (simp add: strip_def is_space_def)
  have lot: "strip ''2'' = ''2'' \<and> strip ''L100'' \<noteq> []"
    unfolding e5 strip_two by simp
  have e1: "strip '' '' = [] \<or> py_int (strip '' '') = None"
    by (simp add: strip_def is_space_def)
  have e2: "strip ''abc'' = [] \<or> py_int (strip ''abc'') = None"
    by (simp add: strip_def is_space_def py_int_def int_unsigned_def is_digit_def)
  have e3: "strip ''30'' \<noteq> [] \<and> py_int (strip ''30'') = Some 30"
    by (simp add: strip_def is_space_def py_int_def int_unsigned_def is_digit_def digit_val_def)
  have e4: "''30'' \<noteq> [] \<and> list_all is_digit ''30''"
    by (simp add: is_digit_def)
  have "trace_product_recall ''2'' ''L100'' '' '' = CallTraceRecall None (Some (strip ''L100'')) 20"
    using lot e1 by (rule w1)
  then have a: "trace_product_recall ''2'' ''L100'' '' '' = CallTraceRecall None (Some ''L100'') 20"
    unfolding e5 .
  have "trace_product_recall ''2'' ''L100'' ''abc'' = CallTraceRecall None (Some (strip ''L100'')) 20"
    using lot e2 by (rule w1)
  then have b: "trace_product_recall ''2'' ''L100'' ''abc'' = CallTraceRecall None (Some ''L100'') 20"
    unfolding e5 .
  have "trace_product_recall ''2'' ''L100'' ''30'' = CallTraceRecall None (Some (strip ''L100'')) 30"
    using lot e3 by (rule w2)
  then have c: "trace_product_recall ''2'' ''L100'' ''30'' = CallTraceRecall None (Some ''L100'') 30"
    unfolding e5 .
  have e6: "strip [] = [] \<or> py_int (strip []) = None"
    by (simp add: strip_def)
  have r: "trace_product_recall ''1'' ''7'' [] =
      CallTraceRecall (Some 7) None (days_window_of [])"
    by (simp add: trace_product_recall_def strip_def is_space_def py_int_def int_unsigned_def
          is_digit_def isdigit_def digit_val_def Let_def)
  have "days_window_of [] = 20"
    using r e6 by (rule w3)
  then have f: "trace_product_recall ''1'' ''7'' [] = CallTraceRecall (Some 7) None 20"
    using r by simp
  obtain v where v: "0 \<le> v" "\<forall>lot. strip lot \<noteq> [] \<longrightarrow>
         trace_product_recall ''2'' lot (CHR ''-'' # ''30'') =
           CallTraceRecall None (Some (strip lot)) (- v)"
    using w4 [OF e4] by blast
  have "strip ''L100'' \<noteq> []" unfolding e5 by simp
  then have "trace_product_recall ''2'' ''L100'' (CHR ''-'' # ''30'') =
           CallTraceRecall None (Some (strip ''L100'')) (- v)"
    using v(2) by blast
  then have "trace_product_recall ''2'' ''L100'' ''-30'' =
      CallTraceRecall None (Some ''L100'') (- v)"
    unfolding e5 by simp
  then have d: "\<exists>v\<ge>0. trace_product_recall ''2'' ''L100'' ''-30'' =
      CallTraceRecall None (Some ''L100'') (- v)"
    using v(1) by blast
  show ?thesis using a b c f d by (intro conjI)
qed

end
